theory Spec2Isabelle
  imports Complex_Main
begin

section \<open>Numbers\<close>

text \<open>
  The simulator computes in IEEE doubles. The development reads a \<open>double\<close> as a
  real number and every arithmetic operation as exact; the comparisons, branches, loops
  and index computations are those of the source. The one exception is the arithmetic
  of the checks in \<open>lcp_lemke_regularized\<close>, which compare residuals with a tolerance
  of the size of the rounding error: there the operations on doubles are parameters.
  \<open>DBL_MAX\<close> is \<open>std::numeric_limits<double>::max()\<close>, the largest finite double.
\<close>

definition DBL_MAX :: real where
  "DBL_MAX = (2 - 1 / 2 ^ 52) * 2 ^ 1023"

text \<open>\<open>std::numeric_limits<double>::epsilon()\<close>, the machine epsilon.\<close>

definition DBL_EPSILON :: real where
  "DBL_EPSILON = 1 / 2 ^ 52"

section \<open>Bodies, joints and pairwise distances\<close>

text \<open>
  \<open>RigidBody::compliance\<close> is an enum with the two values below. A joint carries the
  vectors \<open>q\<close>, \<open>qd\<close>, \<open>lolimit\<close> and \<open>hilimit\<close>, indexed by the degree of freedom,
  and \<open>num_dof()\<close>; in a well-formed joint each vector has \<open>num_dof\<close> entries. An
  entry of \<open>_bodies\<close> either casts to an articulated body, which has joints, or does not.
  A \<open>PairwiseDistInfo\<close> names two geometries and their signed distance; of a geometry
  the code below only reads the rigid body behind it (\<open>get_single_body()\<close>).
\<close>

datatype Compliance = eRigid | eCompliant

record Joint =
  jq :: "real list"
  jqd :: "real list"
  lolimit :: "real list"
  hilimit :: "real list"
  num_dof :: nat

datatype DynamicBody = FreeRigidBody | ArticulatedBody "Joint list"

record RigidBody =
  body_id :: nat
  compliance :: Compliance

record PairwiseDistInfo =
  pdi_a :: RigidBody
  pdi_b :: RigidBody
  pdi_dist :: real

section \<open>TimeSteppingSimulator::calc_next_CA_Euler_step\<close>

text \<open>
  The two \<open>if\<close> statements on one degree of freedom \<open>j\<close> of a joint, as a function
  of the running minimum \<open>next_event_time\<close>. The loop runs \<open>j\<close> below
  \<open>num_dof()\<close>, so in a well-formed joint every index is in range.
\<close>

definition dof_event :: "Joint \<Rightarrow> nat \<Rightarrow> real \<Rightarrow> real" where
  "dof_event joint j next_event_time =
     (let t1 = (if jq joint ! j < hilimit joint ! j \<and> jqd joint ! j > 0
                then min next_event_time ((hilimit joint ! j - jq joint ! j) / jqd joint ! j)
                else next_event_time)
      in if jq joint ! j > lolimit joint ! j \<and> jqd joint ! j < 0
         then min t1 ((lolimit joint ! j - jq joint ! j) / jqd joint ! j)
         else t1)"

definition joint_events :: "Joint \<Rightarrow> real \<Rightarrow> real" where
  "joint_events joint next_event_time = fold (dof_event joint) [0..<num_dof joint] next_event_time"

fun body_events :: "DynamicBody \<Rightarrow> real \<Rightarrow> real" where
  "body_events FreeRigidBody next_event_time = next_event_time"
| "body_events (ArticulatedBody joints) next_event_time = fold joint_events joints next_event_time"

definition either_compliant :: "PairwiseDistInfo \<Rightarrow> bool" where
  "either_compliant pdi \<longleftrightarrow>
     compliance (pdi_a pdi) = eCompliant \<or> compliance (pdi_b pdi) = eCompliant"

text \<open>
  One pass of the loop over \<open>_pairwise_distances\<close>; \<open>calc_CA_Euler_step\<close> is the
  collision detector's (\<open>_coldet\<close>) conservative-advancement query, a parameter here.
\<close>

definition pair_event :: "(PairwiseDistInfo \<Rightarrow> real) \<Rightarrow> PairwiseDistInfo \<Rightarrow> real \<Rightarrow> real" where
  "pair_event calc_CA_Euler_step pdi next_event_time =
     (if either_compliant pdi then next_event_time
      else min next_event_time (calc_CA_Euler_step pdi))"

text \<open>The argument \<open>contact_dist_thresh\<close> is not read by the function.\<close>

definition calc_next_CA_Euler_step ::
  "(PairwiseDistInfo \<Rightarrow> real) \<Rightarrow> DynamicBody list \<Rightarrow> PairwiseDistInfo list \<Rightarrow> real \<Rightarrow> real" where
  "calc_next_CA_Euler_step calc_CA_Euler_step bodies pairwise_distances contact_dist_thresh =
     fold (pair_event calc_CA_Euler_step) pairwise_distances (fold body_events bodies DBL_MAX)"

subsection \<open>The event times, as lists\<close>

text \<open>
  The times the specification speaks of: for a degree of freedom moving toward its upper
  or lower limit the time to reach it, and for a pair of geometries the
  conservative-advancement step.
\<close>

definition dof_times :: "Joint \<Rightarrow> nat \<Rightarrow> real list" where
  "dof_times joint j =
     (if jq joint ! j < hilimit joint ! j \<and> jqd joint ! j > 0
      then [(hilimit joint ! j - jq joint ! j) / jqd joint ! j] else []) @
     (if jq joint ! j > lolimit joint ! j \<and> jqd joint ! j < 0
      then [(lolimit joint ! j - jq joint ! j) / jqd joint ! j] else [])"

definition joint_times :: "Joint \<Rightarrow> real list" where
  "joint_times joint = concat (map (dof_times joint) [0..<num_dof joint])"

fun body_times :: "DynamicBody \<Rightarrow> real list" where
  "body_times FreeRigidBody = []"
| "body_times (ArticulatedBody joints) = concat (map joint_times joints)"

definition joint_limit_times :: "DynamicBody list \<Rightarrow> real list" where
  "joint_limit_times bodies = concat (map body_times bodies)"

definition rigid_pair_times :: "(PairwiseDistInfo \<Rightarrow> real) \<Rightarrow> PairwiseDistInfo list \<Rightarrow> real list" where
  "rigid_pair_times calc_CA_Euler_step pairwise_distances =
     map calc_CA_Euler_step (filter (\<lambda>pdi. \<not> either_compliant pdi) pairwise_distances)"

definition spec_all_pair_times :: "(PairwiseDistInfo \<Rightarrow> real) \<Rightarrow> PairwiseDistInfo list \<Rightarrow> real list" where
  "spec_all_pair_times calc_CA_Euler_step pairwise_distances = map calc_CA_Euler_step pairwise_distances"

section \<open>CCD: contacts of two spheres, and of a box and a sphere\<close>

text \<open>
  A \<open>Vector3d\<close> (and a \<open>Point3d\<close>) is a triple of doubles; the operations below are
  the ones the two functions use. \<open>create_contact(cgA, cgB, p, n)\<close> builds a contact
  from a point and a normal.
\<close>

type_synonym Vector3d = "real \<times> real \<times> real"

fun v_sub :: "Vector3d \<Rightarrow> Vector3d \<Rightarrow> Vector3d" where
  "v_sub (x1, y1, z1) (x2, y2, z2) = (x1 - x2, y1 - y2, z1 - z2)"

fun v_add :: "Vector3d \<Rightarrow> Vector3d \<Rightarrow> Vector3d" where
  "v_add (x1, y1, z1) (x2, y2, z2) = (x1 + x2, y1 + y2, z1 + z2)"

fun v_scale :: "Vector3d \<Rightarrow> real \<Rightarrow> Vector3d" where
  "v_scale (x, y, z) c = (x * c, y * c, z * c)"

fun v_norm :: "Vector3d \<Rightarrow> real" where
  "v_norm (x, y, z) = sqrt (x * x + y * y + z * z)"

definition v_normalize :: "Vector3d \<Rightarrow> Vector3d" where
  "v_normalize v = v_scale v (1 / v_norm v)"

record Contact =
  contact_point :: Vector3d
  contact_normal :: Vector3d

definition create_contact :: "Vector3d \<Rightarrow> Vector3d \<Rightarrow> Contact" where
  "create_contact p n = \<lparr>contact_point = p, contact_normal = n\<rparr>"

text \<open>
  \<open>find_contacts_sphere_sphere\<close>, from the two sphere centres in the global frame
  (\<open>cA0\<close>, \<open>cB0\<close>, which the source obtains from the poses) and the two radii. The
  source tests the double \<open>d.norm() - rA - rB\<close> itself as the condition of the
  \<open>if\<close>: it is true exactly when the double is not zero.
\<close>

definition find_contacts_sphere_sphere ::
  "Vector3d \<Rightarrow> real \<Rightarrow> Vector3d \<Rightarrow> real \<Rightarrow> Contact list" where
  "find_contacts_sphere_sphere cA0 rA cB0 rB =
     (let d = v_sub cA0 cB0
      in if v_norm d - rA - rB \<noteq> 0 then []
         else (let n = v_normalize d;
                   closest_A = v_sub cA0 (v_scale n rA);
                   closest_B = v_add cB0 (v_scale n rB);
                   p = v_scale (v_add closest_A closest_B) (1 / 2)
               in [create_contact p n]))"

text \<open>
  \<open>find_contacts_box_sphere\<close>. The closest-point query of the box primitive
  (\<open>calc_closest_points\<close>) has returned the distance \<open>sdist\<close> (\<open>dist\<close> in the source), \<open>pbox\<close> and \<open>psph\<close>; the
  transforms of a point of the box frame, of a point of the sphere frame and of a vector
  of the sphere frame to the global frame are parameters, and so is the constant
  \<open>NEAR_ZERO\<close> of \<open>Moby/Constants.h\<close>.
\<close>

definition find_contacts_box_sphere ::
  "real \<Rightarrow> (Vector3d \<Rightarrow> Vector3d) \<Rightarrow> (Vector3d \<Rightarrow> Vector3d) \<Rightarrow> (Vector3d \<Rightarrow> Vector3d) \<Rightarrow>
   real \<Rightarrow> Vector3d \<Rightarrow> Vector3d \<Rightarrow> Contact list" where
  "find_contacts_box_sphere NEAR_ZERO box_point_to_global sphere_point_to_global
       sphere_vector_to_global sdist pbox psph =
     (if sdist < NEAR_ZERO then []
      else if sdist > 0 then
        (let psph_global = sphere_point_to_global psph;
             pbox_global = box_point_to_global pbox;
             p = v_scale (v_add psph_global pbox_global) (1 / 2);
             normal = v_normalize (v_sub pbox_global psph_global)
         in [create_contact p normal])
      else
        (let p = sphere_point_to_global psph;
             normal = v_normalize (sphere_vector_to_global psph)
         in [create_contact p normal]))"

section \<open>ConstraintStabilization::compute_s\<close>

text \<open>
  \<open>get_min_pairwise_dist\<close> starts from \<open>DBL_MAX\<close> and takes the minimum with each
  pairwise distance.
\<close>

definition get_min_pairwise_dist :: "PairwiseDistInfo list \<Rightarrow> real" where
  "get_min_pairwise_dist pdi = fold (\<lambda>p d. min d (pdi_dist p)) pdi DBL_MAX"

text \<open>
  The first statement of \<open>compute_s\<close>,
  \<open>double s = std::max(get_min_pairwise_dist(pdi), 0.0);\<close>, gives \<open>s\<close> its initial
  value. The statements after it are not well-formed C++ as the source has them: the
  assignment in the innermost loop hands three doubles to \<open>std::max\<close> and lacks its
  semicolon, the cast names \<open>ArticulatedBodyPtr\<close> as the type pointed to, and one
  closing brace is missing, so that \<open>return s\<close> stands inside the loop over the
  bodies. They are given no model. Under every reading of them the only other
  assignment to \<open>s\<close> stands inside the branch for an articulated body, so with no
  articulated body among the bodies \<open>s\<close> keeps its initial value up to \<open>return s\<close>.
\<close>

definition compute_s_initial :: "PairwiseDistInfo list \<Rightarrow> real" where
  "compute_s_initial pdi = max (get_min_pairwise_dist pdi) 0"

section \<open>TimeSteppingSimulator::do_mini_step, the position-integration loop\<close>

text \<open>
  The bodies are reached through the interface of \<open>DynamicBodyd\<close>, and the simulator
  through \<open>broad_phase\<close>, \<open>calc_pairwise_distances\<close> and the collision detector;
  none of these is defined in the files at hand, so they are the fields of a record of
  operations on a body type \<open>'b\<close> and a simulator state. \<open>as_dynamic\<close> is the
  view of a body that \<open>calc_next_CA_Euler_step\<close> reads (the cast to an articulated body
  and its joints), and \<open>coldet_CA_Euler_step\<close> the detector's query in a given state.
\<close>

datatype GeneralizedCoordinateType = eEuler | eSpatial

record ('b, 'c) Simulator =
  sim_bodies :: "'b list"
  sim_pairwise_distances :: "PairwiseDistInfo list"
  sim_coldet :: 'c

record ('b, 'c) Externals =
  get_generalized_coordinates_euler :: "'b \<Rightarrow> real list"
  set_generalized_coordinates_euler :: "real list \<Rightarrow> 'b \<Rightarrow> 'b"
  get_generalized_velocity :: "GeneralizedCoordinateType \<Rightarrow> 'b \<Rightarrow> real list"
  as_dynamic :: "'b \<Rightarrow> DynamicBody"
  broad_phase :: "real \<Rightarrow> ('b, 'c) Simulator \<Rightarrow> ('b, 'c) Simulator"
  calc_pairwise_distances :: "('b, 'c) Simulator \<Rightarrow> ('b, 'c) Simulator"
  coldet_CA_Euler_step :: "('b, 'c) Simulator \<Rightarrow> PairwiseDistInfo \<Rightarrow> real"

text \<open>The snapshot \<open>qsave\<close> taken on entry.\<close>

definition save_coordinates :: "('b, 'c) Externals \<Rightarrow> ('b, 'c) Simulator \<Rightarrow> real list list" where
  "save_coordinates X s = map (get_generalized_coordinates_euler X) (sim_bodies s)"

text \<open>
  The body of the \<open>for\<close> loop inside the \<open>while\<close> loop, for body \<open>i\<close>: restore the
  saved coordinates, read the velocity in the Euler encoding, scale it by \<open>h + tc\<close>, add
  the saved coordinates and store the result as the new coordinates.
\<close>

definition advance_body :: "('b, 'c) Externals \<Rightarrow> real \<Rightarrow> real list \<Rightarrow> 'b \<Rightarrow> 'b" where
  "advance_body X step qsave_i db =
     (let db1 = set_generalized_coordinates_euler X qsave_i db;
          q = get_generalized_velocity X eEuler db1;
          q1 = map (\<lambda>v. v * step) q;
          q2 = map2 (+) q1 qsave_i
      in set_generalized_coordinates_euler X q2 db1)"

definition advance_bodies ::
  "('b, 'c) Externals \<Rightarrow> real \<Rightarrow> real list list \<Rightarrow> ('b, 'c) Simulator \<Rightarrow> ('b, 'c) Simulator" where
  "advance_bodies X step qsave s =
     s\<lparr>sim_bodies := map (\<lambda>i. advance_body X step (qsave ! i) (sim_bodies s ! i))
                          [0..<length (sim_bodies s)]\<rparr>"

text \<open>
  The \<open>while (h < dt)\<close> loop. Nothing bounds the number of its passes, so the loop is
  a partial function: \<open>None\<close> stands for a run that never leaves it. The result is the
  amount stepped \<open>h\<close> and the simulator state at the exit.
\<close>

partial_function (option) position_loop ::
  "('b, 'c) Externals \<Rightarrow> real \<Rightarrow> real \<Rightarrow> real \<Rightarrow> real list list \<Rightarrow> real \<Rightarrow> ('b, 'c) Simulator
     \<Rightarrow> (real \<times> ('b, 'c) Simulator) option" where
  "position_loop X min_step_size contact_dist_thresh dt qsave h s =
     (if h < dt then
        (let s1 = calc_pairwise_distances X (broad_phase X (dt - h) s);
             CA_step = calc_next_CA_Euler_step (coldet_CA_Euler_step X s1)
                         (map (as_dynamic X) (sim_bodies s1)) (sim_pairwise_distances s1)
                         contact_dist_thresh
         in if CA_step \<le> 0 then Some (h, s1)
            else (let tc = min (dt - h) (max min_step_size CA_step)
                  in position_loop X min_step_size contact_dist_thresh dt qsave (h + tc)
                       (advance_bodies X (h + tc) qsave s1)))
      else Some (h, s))"

definition do_mini_step_positions ::
  "('b, 'c) Externals \<Rightarrow> real \<Rightarrow> real \<Rightarrow> real \<Rightarrow> ('b, 'c) Simulator
     \<Rightarrow> (real \<times> ('b, 'c) Simulator) option" where
  "do_mini_step_positions X min_step_size contact_dist_thresh dt s =
     position_loop X min_step_size contact_dist_thresh dt (save_coordinates X s) 0 s"

section \<open>LCP: vectors, matrices and the linear-algebra library\<close>

text \<open>
  A \<open>VectorNd\<close> is a list of doubles and a \<open>MatrixNd\<close> the list of its rows. The
  sparse matrix type is read as the dense matrix with the same entries. The operations
  below are the ones \<open>LCP.cpp\<close> calls on them.
\<close>

type_synonym VectorNd = "real list"
type_synonym MatrixNd = "real list list"

definition mult :: "MatrixNd \<Rightarrow> VectorNd \<Rightarrow> VectorNd" where
  "mult M v = map (\<lambda>row. sum_list (map2 (*) row v)) M"

definition get_column :: "MatrixNd \<Rightarrow> nat \<Rightarrow> VectorNd" where
  "get_column M c = map (\<lambda>row. row ! c) M"

definition set_column :: "MatrixNd \<Rightarrow> nat \<Rightarrow> VectorNd \<Rightarrow> MatrixNd" where
  "set_column M c v = map2 (\<lambda>row e. row[c := e]) M v"

definition select_columns :: "MatrixNd \<Rightarrow> nat list \<Rightarrow> MatrixNd" where
  "select_columns M cols = map (\<lambda>row. map (\<lambda>c. row ! c) cols) M"

definition identity :: "nat \<Rightarrow> MatrixNd" where
  "identity n = map (\<lambda>i. map (\<lambda>j. if i = j then 1 else 0) [0..<n]) [0..<n]"

definition negate :: "MatrixNd \<Rightarrow> MatrixNd" where
  "negate M = map (map uminus) M"

text \<open>
  \<open>std::min_element\<close> and \<open>std::max_element\<close> return the first smallest and the first
  largest element; \<open>std::find\<close> returns the first match.
\<close>

fun index_of :: "'a \<Rightarrow> 'a list \<Rightarrow> nat" where
  "index_of a [] = 0"
| "index_of a (x # xs) = (if x = a then 0 else Suc (index_of a xs))"

definition min_element_index :: "real list \<Rightarrow> nat" where
  "min_element_index xs = index_of (Min (set xs)) xs"

definition max_element_index :: "real list \<Rightarrow> nat" where
  "max_element_index xs = index_of (Max (set xs)) xs"

text \<open>Arithmetic on \<open>unsigned\<close> wraps at \<open>2^32\<close>.\<close>

definition u32 :: "nat \<Rightarrow> nat" where
  "u32 k = k mod 2 ^ 32"

text \<open>
  The linear-algebra library (\<open>Ravelin::LinAlgd\<close> and the norms) is a parameter.
  \<open>solve_fast\<close> may throw a \<open>SingularException\<close> and \<open>solve_LS_fast1\<close> a
  \<open>NumericalException\<close>, which \<open>lcp_lemke\<close> catches; the solvers work in place,
  so the exception of \<open>solve_LS_fast1\<close> carries what it left in its vector argument,
  which the source then hands to \<open>solve_LS_fast2\<close> without resetting it.
  \<open>solve_LS_fast2\<close> and \<open>solve_sparse_direct\<close>, which the source calls outside
  any \<open>try\<close> block, are read as functions that return. A solver returns a vector of
  the length of its right-hand side; under that contract every index that the dense
  \<open>lcp_lemke\<close> computes is in range.

  The last four fields are the arithmetic of the checks in \<open>lcp_lemke_regularized\<close>:
  \<open>mat_mult\<close> is \<open>MatrixNd::mult\<close>, \<open>dbl_add\<close> and \<open>dbl_mult\<close> are the sum
  and the product of two doubles, and \<open>dbl_pow10 rf\<close> is
  \<open>std::pow((double) 10.0, (double) rf)\<close>.
\<close>

datatype SingularException = SingularException
datatype NumericalException = NumericalException VectorNd

record LinAlgd =
  mat_norm_inf :: "MatrixNd \<Rightarrow> real"
  vec_norm_inf :: "VectorNd \<Rightarrow> real"
  solve_fast :: "MatrixNd \<Rightarrow> VectorNd \<Rightarrow> SingularException + VectorNd"
  solve_LS_fast1 :: "MatrixNd \<Rightarrow> VectorNd \<Rightarrow> NumericalException + VectorNd"
  solve_LS_fast2 :: "MatrixNd \<Rightarrow> VectorNd \<Rightarrow> VectorNd"
  solve_sparse_direct :: "MatrixNd \<Rightarrow> VectorNd \<Rightarrow> VectorNd"
  mat_mult :: "MatrixNd \<Rightarrow> VectorNd \<Rightarrow> VectorNd"
  dbl_add :: "real \<Rightarrow> real \<Rightarrow> real"
  dbl_mult :: "real \<Rightarrow> real \<Rightarrow> real"
  dbl_pow10 :: "int \<Rightarrow> real"

text \<open>The \<open>try\<close>/\<open>catch\<close> cascade that solves \<open>B x = b\<close>.\<close>

definition solve_cascade :: "LinAlgd \<Rightarrow> MatrixNd \<Rightarrow> VectorNd \<Rightarrow> VectorNd" where
  "solve_cascade LA B b =
     (case solve_fast LA B b of
        Inr x \<Rightarrow> x
      | Inl SingularException \<Rightarrow>
          (case solve_LS_fast1 LA B b of
             Inr x \<Rightarrow> x
           | Inl (NumericalException x') \<Rightarrow> solve_LS_fast2 LA B x'))"

section \<open>LCP::lcp_lemke on a dense matrix\<close>

text \<open>
  How a call of \<open>lcp_lemke\<close> ends, one value for each message that the function logs
  before it returns (and one for the exit on an empty problem).
\<close>

datatype lemke_exit =
    EmptyProblem | TrivialSolution | InitialBasis | Solved
  | RayTermination | ZeroTolTooLow | MaxIterExceeded

text \<open>
  The result of a call: the boolean returned, the vector \<open>z\<close> on return, how the call
  ended, and the value of the loop counter \<open>iter\<close> on return (0 before the loop).
\<close>

type_synonym lemke_result = "bool \<times> VectorNd \<times> lemke_exit \<times> nat"

definition initial_bas :: "VectorNd \<Rightarrow> nat \<Rightarrow> nat list" where
  "initial_bas z0 n = (if length z0 \<noteq> n then [] else filter (\<lambda>i. z0 ! i > 0) [0..<n])"

definition initial_nonbas :: "VectorNd \<Rightarrow> nat \<Rightarrow> nat list" where
  "initial_nonbas z0 n =
     (if length z0 \<noteq> n then [0..<n] else filter (\<lambda>i. \<not> z0 ! i > 0) [0..<n])"

text \<open>The loop \<open>z[*iiter] = _x[idx]\<close> over the basis.\<close>

definition write_back :: "nat list \<Rightarrow> VectorNd \<Rightarrow> VectorNd \<Rightarrow> VectorNd" where
  "write_back bas x z = fold (\<lambda>(idx, b) z'. z'[b := x ! idx]) (enumerate 0 bas) z"

definition entering_variable :: "MatrixNd \<Rightarrow> nat \<Rightarrow> nat \<Rightarrow> nat \<times> VectorNd" where
  "entering_variable M n leaving =
     (if leaving < n then (u32 (n + leaving), (replicate n 0)[leaving := - 1])
      else (leaving - n, get_column M (leaving - n)))"

definition PIV_TOL :: "LinAlgd \<Rightarrow> nat \<Rightarrow> real \<Rightarrow> VectorNd \<Rightarrow> real" where
  "PIV_TOL LA n piv_tol Be =
     (if piv_tol > 0 then piv_tol else DBL_EPSILON * real n * max 1 (vec_norm_inf LA Be))"

definition pivot_candidates :: "VectorNd \<Rightarrow> real \<Rightarrow> nat list" where
  "pivot_candidates dl tol = filter (\<lambda>i. dl ! i > tol) [0..<length dl]"

definition min_ratio :: "VectorNd \<Rightarrow> VectorNd \<Rightarrow> real \<Rightarrow> real" where
  "min_ratio xj dj zero_tol = Min (set (map2 (\<lambda>a b. (a + zero_tol) / b) xj dj))"

definition ratio_filter :: "nat list \<Rightarrow> VectorNd \<Rightarrow> VectorNd \<Rightarrow> real \<Rightarrow> nat list" where
  "ratio_filter j xj dj theta = map fst (filter (\<lambda>(i, r). r \<le> theta) (zip j (map2 (/) xj dj)))"

definition leaving_index :: "nat list \<Rightarrow> VectorNd \<Rightarrow> nat list \<Rightarrow> nat \<Rightarrow> nat" where
  "leaving_index bas dl j t =
     (let tlist = map (\<lambda>i. bas ! i) j;
          lvindex = (if t \<in> set tlist then index_of t tlist
                     else max_element_index (map (\<lambda>i. dl ! i) j))
      in j ! lvindex)"

definition pivot_x :: "VectorNd \<Rightarrow> VectorNd \<Rightarrow> nat \<Rightarrow> VectorNd" where
  "pivot_x x dl lvindex =
     (let ratio = x ! lvindex / dl ! lvindex;
          dl1 = map (\<lambda>v. v * ratio) dl
      in (map2 (-) x dl1)[lvindex := ratio])"

text \<open>
  The zero tolerance that \<open>lcp_lemke\<close> works with: its argument, or a default when
  the argument is not positive.
\<close>

definition lemke_zero_tol :: "LinAlgd \<Rightarrow> MatrixNd \<Rightarrow> nat \<Rightarrow> real \<Rightarrow> real" where
  "lemke_zero_tol LA M n zero_tol =
     (if zero_tol \<le> 0 then DBL_EPSILON * mat_norm_inf LA M * real n else zero_tol)"

text \<open>
  The main loop of the dense \<open>lcp_lemke\<close>, from the pass with counter \<open>iter\<close> on.
  \<open>t\<close> is the index of the artificial variable.
\<close>

function lemke_loop ::
  "LinAlgd \<Rightarrow> MatrixNd \<Rightarrow> nat \<Rightarrow> real \<Rightarrow> real \<Rightarrow> nat \<Rightarrow> nat \<Rightarrow> nat \<Rightarrow> nat list \<Rightarrow> VectorNd \<Rightarrow>
   MatrixNd \<Rightarrow> VectorNd \<Rightarrow> lemke_result" where
  "lemke_loop LA M n piv_tol zero_tol MAXITER iter leaving bas x Bl z =
     (if iter < MAXITER then
        (if leaving = u32 (2 * n) then (True, take n (write_back bas x z), Solved, iter)
         else
           (let entering = fst (entering_variable M n leaving);
                Be = snd (entering_variable M n leaving);
                dl = solve_cascade LA Bl Be;
                j = pivot_candidates dl (PIV_TOL LA n piv_tol Be)
            in if j = [] then (False, take n z, RayTermination, iter)
               else
                 (let xj = map (\<lambda>i. x ! i) j;
                      dj = map (\<lambda>i. dl ! i) j;
                      theta = min_ratio xj dj zero_tol;
                      j1 = ratio_filter j xj dj theta
                  in if j1 = [] then (False, take n z, ZeroTolTooLow, iter)
                     else
                       (let lvindex = leaving_index bas dl j1 (u32 (2 * n))
                        in lemke_loop LA M n piv_tol zero_tol MAXITER (Suc iter)
                             (bas ! lvindex) (bas[lvindex := entering])
                             (pivot_x x dl lvindex) (set_column Bl lvindex Be) z))))
      else (False, take n z, MaxIterExceeded, iter))"
  by pat_completeness auto
termination
  by (relation "measure (\<lambda>(LA, M, n, piv_tol, zero_tol, MAXITER, iter, rest). MAXITER - iter)")
     auto

declare lemke_loop.simps [simp del]

text \<open>
  The dense \<open>lcp_lemke(M, q, z, piv_tol, zero_tol)\<close>; \<open>z0\<close> is the vector \<open>z\<close> on
  entry.
\<close>

definition lcp_lemke ::
  "LinAlgd \<Rightarrow> MatrixNd \<Rightarrow> VectorNd \<Rightarrow> VectorNd \<Rightarrow> real \<Rightarrow> real \<Rightarrow> lemke_result" where
  "lcp_lemke LA M q z0 piv_tol zero_tol_arg =
     (let n = length q;
          MAXITER = min 1000 (u32 (50 * n))
      in if n = 0 then (True, [], EmptyProblem, 0)
         else
           (let zero_tol = lemke_zero_tol LA M n zero_tol_arg
            in if Min (set q) > - zero_tol then (True, replicate n 0, TrivialSolution, 0)
               else
                 (let z = replicate (u32 (n * 2)) 0;
                      t = u32 (2 * n);
                      bas = initial_bas z0 n;
                      nonbas = initial_nonbas z0 n;
                      Bl = (if bas \<noteq> []
                            then map2 (@) (select_columns M bas)
                                   (select_columns (negate (identity n)) nonbas)
                            else negate (identity n));
                      x = map uminus (solve_cascade LA Bl q)
                  in if \<not> (\<exists>v \<in> set x. v < 0)
                     then (True, take n (write_back bas x z), InitialBasis, 0)
                     else
                       (let lvindex = min_element_index (take n x);
                            tval = - (x ! lvindex);
                            bas1 = bas @ map (\<lambda>i. u32 (i + n)) nonbas;
                            leaving = bas1 ! lvindex;
                            bas2 = bas1[lvindex := t];
                            u = map (\<lambda>i. if x ! i < 0 then 1 else 0) [0..<n];
                            Be = map uminus (mult Bl u);
                            x1 = (map2 (+) x (map (\<lambda>v. v * tval) u))[lvindex := tval];
                            Bl1 = set_column Bl lvindex Be
                        in lemke_loop LA M n piv_tol zero_tol MAXITER 0 leaving bas2 x1 Bl1 z))))"

section \<open>LCP::lcp_lemke on a sparse matrix\<close>

text \<open>
  An index past the end of a \<open>std::vector\<close> or of a \<open>VectorNd\<close> has no defined
  behaviour in the source; the model returns \<open>OutOfRange\<close> there.
\<close>

datatype error = OutOfRange

text \<open>
  The sparse function differs from the dense one in three places: the initial basis matrix
  is assembled entry by entry, with \<open>1.0\<close> in the columns of the variables outside the
  basis; the systems are solved by \<open>solve_sparse_direct\<close>, with no \<open>catch\<close>; and the
  first \<open>select\<close> of the ratio test reads the member \<open>_d\<close> of the \<open>LCP\<close> object,
  which the function never writes, where the dense function reads \<open>_dl\<close>. The content
  of \<open>_d\<close> on entry is the argument \<open>d_member\<close>; \<open>select\<close> reads it at the
  indices in \<open>_j\<close>, and an index past its end is \<open>OutOfRange\<close>.
\<close>

definition sparse_basis :: "MatrixNd \<Rightarrow> nat \<Rightarrow> nat list \<Rightarrow> nat list \<Rightarrow> MatrixNd" where
  "sparse_basis M n bas nonbas =
     (if bas \<noteq> []
      then map (\<lambda>r. map (\<lambda>c. M ! r ! c) bas @ map (\<lambda>i. if i = r then 1 else 0) nonbas) [0..<n]
      else negate (identity n))"

function sparse_lemke_loop ::
  "LinAlgd \<Rightarrow> VectorNd \<Rightarrow> MatrixNd \<Rightarrow> nat \<Rightarrow> real \<Rightarrow> real \<Rightarrow> nat \<Rightarrow> nat \<Rightarrow> nat \<Rightarrow> nat list \<Rightarrow>
   VectorNd \<Rightarrow> MatrixNd \<Rightarrow> VectorNd \<Rightarrow> error + lemke_result" where
  "sparse_lemke_loop LA d_member M n piv_tol zero_tol MAXITER iter leaving bas x sBl z =
     (if iter < MAXITER then
        (if leaving = u32 (2 * n) then Inr (True, take n (write_back bas x z), Solved, iter)
         else
           (let entering = fst (entering_variable M n leaving);
                Be = snd (entering_variable M n leaving);
                dl = solve_sparse_direct LA sBl Be;
                j = pivot_candidates dl (PIV_TOL LA n piv_tol Be)
            in if j = [] then Inr (False, take n z, RayTermination, iter)
               else if \<exists>i \<in> set j. length d_member \<le> i then Inl OutOfRange
               else
                 (let xj = map (\<lambda>i. x ! i) j;
                      dj = map (\<lambda>i. d_member ! i) j;
                      theta = min_ratio xj dj zero_tol;
                      j1 = ratio_filter j xj dj theta
                  in if j1 = [] then Inr (False, take n z, ZeroTolTooLow, iter)
                     else
                       (let lvindex = leaving_index bas dl j1 (u32 (2 * n))
                        in sparse_lemke_loop LA d_member M n piv_tol zero_tol MAXITER (Suc iter)
                             (bas ! lvindex) (bas[lvindex := entering])
                             (pivot_x x dl lvindex) (set_column sBl lvindex Be) z))))
      else Inr (False, take n z, MaxIterExceeded, iter))"
  by pat_completeness auto
termination
  by (relation "measure (\<lambda>(LA, d_member, M, n, piv_tol, zero_tol, MAXITER, iter, rest).
                           MAXITER - iter)")
     auto

declare sparse_lemke_loop.simps [simp del]

definition lcp_lemke_sparse ::
  "LinAlgd \<Rightarrow> VectorNd \<Rightarrow> MatrixNd \<Rightarrow> VectorNd \<Rightarrow> VectorNd \<Rightarrow> real \<Rightarrow> real \<Rightarrow> error + lemke_result" where
  "lcp_lemke_sparse LA d_member M q z0 piv_tol zero_tol_arg =
     (let n = length q;
          MAXITER = min 1000 (u32 (50 * n))
      in if n = 0 then Inr (True, [], EmptyProblem, 0)
         else
           (let zero_tol = lemke_zero_tol LA M n zero_tol_arg
            in if Min (set q) > - zero_tol then Inr (True, replicate n 0, TrivialSolution, 0)
               else
                 (let z = replicate (u32 (n * 2)) 0;
                      t = u32 (2 * n);
                      bas = initial_bas z0 n;
                      nonbas = initial_nonbas z0 n;
                      sBl = sparse_basis M n bas nonbas;
                      x = map uminus (solve_sparse_direct LA sBl q)
                  in if \<not> (\<exists>v \<in> set x. v < 0)
                     then Inr (True, take n (write_back bas x z), InitialBasis, 0)
                     else
                       (let lvindex = min_element_index (take n x);
                            tval = - (x ! lvindex);
                            bas1 = bas @ map (\<lambda>i. u32 (i + n)) nonbas;
                            leaving = bas1 ! lvindex;
                            bas2 = bas1[lvindex := t];
                            u = map (\<lambda>i. if x ! i < 0 then 1 else 0) [0..<n];
                            Be = map uminus (mult sBl u);
                            x1 = (map2 (+) x (map (\<lambda>v. v * tval) u))[lvindex := tval];
                            sBl1 = set_column sBl lvindex Be
                        in sparse_lemke_loop LA d_member M n piv_tol zero_tol MAXITER 0
                             leaving bas2 x1 sBl1 z))))"

section \<open>LCP::lcp_lemke_regularized\<close>

definition ZERO_TOL :: "LinAlgd \<Rightarrow> VectorNd \<Rightarrow> real \<Rightarrow> real" where
  "ZERO_TOL LA q zero_tol = (if zero_tol > 0 then zero_tol else real (length q) * DBL_EPSILON)"

text \<open>The loop \<open>_MM(i,i) += lambda\<close> over the rows of \<open>M\<close>.\<close>

definition regularize :: "LinAlgd \<Rightarrow> MatrixNd \<Rightarrow> real \<Rightarrow> MatrixNd" where
  "regularize LA M lambda =
     map (\<lambda>(i, row). row[i := dbl_add LA (row ! i) lambda]) (enumerate 0 M)"

text \<open>
  The vector that \<open>M.mult(z, _wx) += q\<close> leaves in \<open>_wx\<close>, and the products that
  \<open>std::transform\<close> with \<open>std::multiplies<double>\<close> then computes from \<open>z\<close> and
  \<open>_wx\<close>.
\<close>

definition checked_w :: "LinAlgd \<Rightarrow> MatrixNd \<Rightarrow> VectorNd \<Rightarrow> VectorNd \<Rightarrow> VectorNd" where
  "checked_w LA M z q = map2 (dbl_add LA) (mat_mult LA M z) q"

definition checked_products :: "LinAlgd \<Rightarrow> VectorNd \<Rightarrow> VectorNd \<Rightarrow> VectorNd" where
  "checked_products LA z wx = map2 (dbl_mult LA) z wx"

text \<open>
  The three nested checks on a solution \<open>z\<close>: on \<open>z\<close>, on the computed
  \<open>w = M z + q\<close>, and on the computed products \<open>z\<^sub>i w\<^sub>i\<close>. After the solve
  without regularization the lower bounds are tested with \<open>>=\<close>, inside the
  regularization loop with \<open>>\<close>.
\<close>

definition verified :: "LinAlgd \<Rightarrow> MatrixNd \<Rightarrow> VectorNd \<Rightarrow> VectorNd \<Rightarrow> real \<Rightarrow> bool" where
  "verified LA M q z tol \<longleftrightarrow>
     Min (set z) \<ge> - tol \<and>
     (let wx = checked_w LA M z q
      in Min (set wx) \<ge> - tol \<and>
         (let zw = checked_products LA z wx
          in Min (set zw) \<ge> - tol \<and> Max (set zw) < tol))"

definition verified_strictly ::
  "LinAlgd \<Rightarrow> MatrixNd \<Rightarrow> VectorNd \<Rightarrow> VectorNd \<Rightarrow> real \<Rightarrow> bool" where
  "verified_strictly LA MM q z tol \<longleftrightarrow>
     Min (set z) > - tol \<and>
     (let wx = checked_w LA MM z q
      in Min (set wx) > - tol \<and>
         (let zw = checked_products LA z wx
          in Min (set zw) > - tol \<and> Max (set zw) < tol))"

text \<open>
  \<open>rf\<close> is an \<open>int\<close> and \<open>step_exp\<close> an \<open>unsigned\<close>: \<open>rf += step_exp\<close> adds
  modulo \<open>2^32\<close> and reads the sum as a signed 32-bit number.
\<close>

definition int32 :: "int \<Rightarrow> int" where
  "int32 k = (k + 2 ^ 31) mod 2 ^ 32 - 2 ^ 31"

text \<open>
  One pass of the regularization loop at exponent \<open>rf\<close>: the solve of the regularized
  problem from the current \<open>z\<close>, and the checks. The result is whether the pass returns
  success, and \<open>z\<close> after the pass.
\<close>

definition regularized_attempt ::
  "LinAlgd \<Rightarrow> MatrixNd \<Rightarrow> VectorNd \<Rightarrow> real \<Rightarrow> real \<Rightarrow> int \<Rightarrow> VectorNd \<Rightarrow> bool \<times> VectorNd" where
  "regularized_attempt LA M q piv_tol zero_tol rf z =
     (let lambda = dbl_pow10 LA rf;
          MM = regularize LA M lambda;
          r = lcp_lemke LA MM q z piv_tol zero_tol
      in (fst r \<and> verified_strictly LA MM q (fst (snd r)) (ZERO_TOL LA q zero_tol),
          fst (snd r)))"

text \<open>
  The loop \<open>while (rf < max_exp)\<close>. With \<open>step_exp = 0\<close> it does not end, so it is a
  partial function, \<open>None\<close> standing for a run that never returns.
\<close>

partial_function (option) regularization_loop ::
  "LinAlgd \<Rightarrow> MatrixNd \<Rightarrow> VectorNd \<Rightarrow> nat \<Rightarrow> int \<Rightarrow> real \<Rightarrow> real \<Rightarrow> int \<Rightarrow> VectorNd
     \<Rightarrow> (bool \<times> VectorNd) option" where
  "regularization_loop LA M q step_exp max_exp piv_tol zero_tol rf z =
     (if rf < max_exp then
        (if fst (regularized_attempt LA M q piv_tol zero_tol rf z)
         then Some (True, snd (regularized_attempt LA M q piv_tol zero_tol rf z))
         else regularization_loop LA M q step_exp max_exp piv_tol zero_tol
                (int32 (rf + int step_exp))
                (snd (regularized_attempt LA M q piv_tol zero_tol rf z)))
      else Some (False, z))"

definition lcp_lemke_regularized ::
  "LinAlgd \<Rightarrow> MatrixNd \<Rightarrow> VectorNd \<Rightarrow> VectorNd \<Rightarrow> int \<Rightarrow> nat \<Rightarrow> int \<Rightarrow> real \<Rightarrow> real
     \<Rightarrow> (bool \<times> VectorNd) option" where
  "lcp_lemke_regularized LA M q z min_exp step_exp max_exp piv_tol zero_tol =
     (if length q = 0 then Some (True, [])
      else
        (let r = lcp_lemke LA M q z piv_tol zero_tol
         in if fst r \<and> verified LA M q (fst (snd r)) (ZERO_TOL LA q zero_tol)
            then Some (True, fst (snd r))
            else regularization_loop LA M q step_exp max_exp piv_tol zero_tol min_exp
                   (fst (snd r))))"

text \<open>
  A library instance that is exact on systems with one unknown; the runs on problems of
  size 1 whose numbers are small integers, on which the arithmetic of doubles is exact,
  use it. A singular system makes \<open>solve_fast\<close> throw, and the least-squares solvers
  return the solution of least norm.
\<close>

definition scalar_LinAlgd :: LinAlgd where
  "scalar_LinAlgd =
     \<lparr>mat_norm_inf = (\<lambda>M. \<bar>hd (hd M)\<bar>),
      vec_norm_inf = (\<lambda>v. \<bar>hd v\<bar>),
      solve_fast = (\<lambda>B b. if hd (hd B) = 0 then Inl SingularException
                            else Inr [hd b / hd (hd B)]),
      solve_LS_fast1 = (\<lambda>B b. Inr [if hd (hd B) = 0 then 0 else hd b / hd (hd B)]),
      solve_LS_fast2 = (\<lambda>B b. [if hd (hd B) = 0 then 0 else hd b / hd (hd B)]),
      solve_sparse_direct = (\<lambda>B b. [if hd (hd B) = 0 then 0 else hd b / hd (hd B)]),
      mat_mult = mult,
      dbl_add = (+),
      dbl_mult = (*),
      dbl_pow10 = (\<lambda>rf. 10 powi rf)\<rparr>"

text \<open>
  Rounding to a double. \<open>round_to_even\<close> is the integer nearest to a real number,
  the even one of the two when it lies half-way. \<open>round_double\<close> rounds a real number
  to the nearest number with a significand of 53 bits, which is the nearest double for
  a number in the range of the normal doubles.
\<close>

definition round_to_even :: "real \<Rightarrow> int" where
  "round_to_even m =
     (let n = \<lfloor>m\<rfloor>; d = m - of_int n
      in if d < 1 / 2 then n else if 1 / 2 < d then n + 1 else if even n then n else n + 1)"

definition round_double :: "real \<Rightarrow> real" where
  "round_double x =
     (if x = 0 then 0
      else (let u = 2 powi (\<lfloor>log 2 \<bar>x\<bar>\<rfloor> - 52) in of_int (round_to_even (x / u)) * u))"

text \<open>
  The library on systems with one unknown in the arithmetic of doubles: every quotient,
  product and sum is rounded.
\<close>

definition double_LinAlgd :: LinAlgd where
  "double_LinAlgd =
     \<lparr>mat_norm_inf = (\<lambda>M. \<bar>hd (hd M)\<bar>),
      vec_norm_inf = (\<lambda>v. \<bar>hd v\<bar>),
      solve_fast = (\<lambda>B b. if hd (hd B) = 0 then Inl SingularException
                            else Inr [round_double (hd b / hd (hd B))]),
      solve_LS_fast1 =
        (\<lambda>B b. Inr [if hd (hd B) = 0 then 0 else round_double (hd b / hd (hd B))]),
      solve_LS_fast2 = (\<lambda>B b. [if hd (hd B) = 0 then 0 else round_double (hd b / hd (hd B))]),
      solve_sparse_direct =
        (\<lambda>B b. [if hd (hd B) = 0 then 0 else round_double (hd b / hd (hd B))]),
      mat_mult = (\<lambda>M v. [round_double (hd (hd M) * hd v)]),
      dbl_add = (\<lambda>a b. round_double (a + b)),
      dbl_mult = (\<lambda>a b. round_double (a * b)),
      dbl_pow10 = (\<lambda>rf. round_double (10 powi rf))\<rparr>"

section \<open>Notions used to state the properties of the LCP functions\<close>

text \<open>
  The vector \<open>w = M z + q\<close> and the product \<open>z\<^sup>T w\<close> of the complementarity
  problem, as real numbers.
\<close>

definition w_of :: "MatrixNd \<Rightarrow> VectorNd \<Rightarrow> VectorNd \<Rightarrow> VectorNd" where
  "w_of M z q = map2 (+) (mult M z) q"

definition dot :: "VectorNd \<Rightarrow> VectorNd \<Rightarrow> real" where
  "dot u v = sum_list (map2 (*) u v)"

text \<open>
  A result of \<open>lcp_lemke\<close> respects the iteration cap \<open>MAXITER\<close>: the loop counter
  on return is at most the cap, the call returns \<open>true\<close> exactly on the four exits with
  a solution, and it ends by exceeding the cap exactly when it returns \<open>false\<close> with
  the counter at the cap.
\<close>

definition within_cap :: "nat \<Rightarrow> lemke_result \<Rightarrow> bool" where
  "within_cap MAXITER r \<longleftrightarrow>
     snd (snd (snd r)) \<le> MAXITER \<and>
     (fst r \<longleftrightarrow> fst (snd (snd r)) \<in> {EmptyProblem, TrivialSolution, InitialBasis, Solved}) \<and>
     (fst (snd (snd r)) = MaxIterExceeded \<longleftrightarrow> \<not> fst r \<and> snd (snd (snd r)) = MAXITER)"

text \<open>
  The exponents of the regularization as a list: the arithmetic progression that starts
  at \<open>rf\<close>, has step \<open>step_exp\<close> and stays below \<open>max_exp\<close>. And the search that
  the specification describes over such a list: the exponents are tried in order, each
  from the \<open>z\<close> that the attempt before it left, and the first attempt that passes the
  checks wins.
\<close>

function exponents :: "int \<Rightarrow> nat \<Rightarrow> int \<Rightarrow> int list" where
  "exponents rf step_exp max_exp =
     (if rf < max_exp \<and> 0 < step_exp then rf # exponents (rf + int step_exp) step_exp max_exp
      else [])"
  by pat_completeness auto
termination
  by (relation "measure (\<lambda>(rf, step_exp, max_exp). nat (max_exp - rf))") auto

declare exponents.simps [simp del]

fun try_exponents ::
  "LinAlgd \<Rightarrow> MatrixNd \<Rightarrow> VectorNd \<Rightarrow> real \<Rightarrow> real \<Rightarrow> int list \<Rightarrow> VectorNd \<Rightarrow> bool \<times> VectorNd" where
  "try_exponents LA M q piv_tol zero_tol [] z = (False, z)"
| "try_exponents LA M q piv_tol zero_tol (rf # rfs) z =
     (if fst (regularized_attempt LA M q piv_tol zero_tol rf z)
      then (True, snd (regularized_attempt LA M q piv_tol zero_tol rf z))
      else try_exponents LA M q piv_tol zero_tol rfs
             (snd (regularized_attempt LA M q piv_tol zero_tol rf z)))"

text \<open>
  The passes of the regularization loop. \<open>pass_state k rf z\<close> is the exponent and the
  vector \<open>z\<close> with which pass \<open>k\<close> of a loop entered with \<open>rf\<close> and \<open>z\<close> starts,
  when no pass before it returns. The loop runs pass \<open>k\<close> when the exponents of the
  passes up to \<open>k\<close> are below \<open>max_exp\<close> and the passes before \<open>k\<close> do not
  return success.
\<close>

fun pass_state ::
  "LinAlgd \<Rightarrow> MatrixNd \<Rightarrow> VectorNd \<Rightarrow> nat \<Rightarrow> real \<Rightarrow> real \<Rightarrow> nat \<Rightarrow> int \<Rightarrow> VectorNd
     \<Rightarrow> int \<times> VectorNd" where
  "pass_state LA M q step_exp piv_tol zero_tol 0 rf z = (rf, z)"
| "pass_state LA M q step_exp piv_tol zero_tol (Suc k) rf z =
     pass_state LA M q step_exp piv_tol zero_tol k (int32 (rf + int step_exp))
       (snd (regularized_attempt LA M q piv_tol zero_tol rf z))"

definition runs_pass ::
  "LinAlgd \<Rightarrow> MatrixNd \<Rightarrow> VectorNd \<Rightarrow> nat \<Rightarrow> int \<Rightarrow> real \<Rightarrow> real \<Rightarrow> int \<Rightarrow> VectorNd \<Rightarrow> nat
     \<Rightarrow> bool" where
  "runs_pass LA M q step_exp max_exp piv_tol zero_tol rf z k \<longleftrightarrow>
     fst (pass_state LA M q step_exp piv_tol zero_tol k rf z) < max_exp \<and>
     (\<forall>j < k. fst (pass_state LA M q step_exp piv_tol zero_tol j rf z) < max_exp \<and>
              \<not> fst (regularized_attempt LA M q piv_tol zero_tol
                       (fst (pass_state LA M q step_exp piv_tol zero_tol j rf z))
                       (snd (pass_state LA M q step_exp piv_tol zero_tol j rf z))))"

section \<open>Inputs of the example runs\<close>

text \<open>
  A pair of geometries at distance 1 whose first body is compliant; a pair of rigid
  bodies that interpenetrate, at the signed distance -1; and a joint at rest inside its
  limits.
\<close>

definition compliant_pair :: PairwiseDistInfo where
  "compliant_pair = \<lparr>pdi_a = \<lparr>body_id = 0, compliance = eCompliant\<rparr>,
                      pdi_b = \<lparr>body_id = 1, compliance = eRigid\<rparr>, pdi_dist = 1\<rparr>"

definition penetrating_pair :: PairwiseDistInfo where
  "penetrating_pair = \<lparr>pdi_a = \<lparr>body_id = 0, compliance = eRigid\<rparr>,
                        pdi_b = \<lparr>body_id = 1, compliance = eRigid\<rparr>, pdi_dist = - 1\<rparr>"

definition resting_joint :: Joint where
  "resting_joint = \<lparr>jq = [0], jqd = [0], lolimit = [- 1], hilimit = [1], num_dof = 1\<rparr>"

text \<open>
  A scene for a run of the position-integration loop: bodies that are a pair of a
  coordinate vector and a velocity vector, no pairwise distances, and a simulator whose
  broad phase and distance computation leave the state alone. Its one body is at
  coordinate 0 with velocity 1.
\<close>

definition point_externals :: "(real list \<times> real list, unit) Externals" where
  "point_externals =
     \<lparr>get_generalized_coordinates_euler = fst,
      set_generalized_coordinates_euler = (\<lambda>q db. (q, snd db)),
      get_generalized_velocity = (\<lambda>enc db. snd db),
      as_dynamic = (\<lambda>db. FreeRigidBody),
      broad_phase = (\<lambda>step s. s),
      calc_pairwise_distances = (\<lambda>s. s),
      coldet_CA_Euler_step = (\<lambda>s. pdi_dist)\<rparr>"

definition point_scene :: "(real list \<times> real list, unit) Simulator" where
  "point_scene = \<lparr>sim_bodies = [([0], [1])], sim_pairwise_distances = [], sim_coldet = ()\<rparr>"

section \<open>Properties of calc_next_CA_Euler_step\<close>

lemma fold_min_concat:
  assumes "\<And>x t. g x t = fold min (f x) (t::real)"
  shows "fold g xs t0 = fold min (concat (map f xs)) t0"
  by (induction xs arbitrary: t0) (simp_all add: assms)

lemma dof_event_fold: "dof_event joint j t = fold min (dof_times joint j) t"
  by (simp add: dof_event_def dof_times_def Let_def min.commute)

lemma joint_events_fold: "joint_events joint t = fold min (joint_times joint) t"
  unfolding joint_events_def joint_times_def
  by (rule fold_min_concat) (rule dof_event_fold)

lemma body_events_fold: "body_events b t = fold min (body_times b) t"
proof (cases b)
  case FreeRigidBody
  then show ?thesis by simp
next
  case (ArticulatedBody joints)
  have "fold joint_events joints t = fold min (concat (map joint_times joints)) t"
    by (rule fold_min_concat) (rule joint_events_fold)
  with ArticulatedBody show ?thesis by simp
qed

lemma bodies_fold: "fold body_events bodies t = fold min (joint_limit_times bodies) t"
  unfolding joint_limit_times_def
  by (rule fold_min_concat) (rule body_events_fold)

lemma pairs_fold:
  "fold (pair_event c) pdis t = fold min (rigid_pair_times c pdis) t"
  by (induction pdis arbitrary: t) (simp_all add: pair_event_def rigid_pair_times_def min.commute)

lemma calc_next_as_fold:
  "calc_next_CA_Euler_step c bodies pdis thresh =
     fold min (joint_limit_times bodies @ rigid_pair_times c pdis) DBL_MAX"
  by (simp add: calc_next_CA_Euler_step_def bodies_fold pairs_fold)

lemma calc_next_as_Min:
  "calc_next_CA_Euler_step c bodies pdis thresh =
     Min (set (DBL_MAX # joint_limit_times bodies @ rigid_pair_times c pdis))"
  unfolding calc_next_as_fold by (rule Min.set_eq_fold [symmetric])

lemma DBL_MAX_pos: "0 < DBL_MAX"
  by (simp add: DBL_MAX_def)

lemma DBL_MAX_gt_1: "1 < DBL_MAX"
  by (simp add: DBL_MAX_def)

lemma resting_times: "joint_limit_times [ArticulatedBody [resting_joint]] = []"
  by (simp add: joint_limit_times_def joint_times_def dof_times_def resting_joint_def)

lemma compliant_times: "rigid_pair_times c [compliant_pair] = []"
  by (simp add: rigid_pair_times_def either_compliant_def compliant_pair_def)

text \<open>
  Claim C7, as the code has it. \<open>calc_next_CA_Euler_step\<close> returns the minimum of
  \<open>DBL_MAX\<close>, of the times to the limit of the joint degrees of freedom that move
  toward a limit, and of the conservative-advancement steps of the pairwise-distance
  records neither of whose bodies is compliant; it returns \<open>DBL_MAX\<close> when there is no
  such time and no such pair.
\<close>

theorem calc_next_CA_Euler_step_min:
  "calc_next_CA_Euler_step c bodies pdis thresh =
     Min (set (DBL_MAX # joint_limit_times bodies @ rigid_pair_times c pdis)) \<and>
   (joint_limit_times bodies = [] \<and> rigid_pair_times c pdis = [] \<longrightarrow>
      calc_next_CA_Euler_step c bodies pdis thresh = DBL_MAX)"
proof -
  have "calc_next_CA_Euler_step c bodies pdis thresh
          = fold (pair_event c) pdis (fold body_events bodies DBL_MAX)"
    by (simp add: calc_next_CA_Euler_step_def)
  also have "\<dots> = fold min (rigid_pair_times c pdis) (fold min (joint_limit_times bodies) DBL_MAX)"
    by (simp add: bodies_fold pairs_fold)
  also have "\<dots> = fold min (joint_limit_times bodies @ rigid_pair_times c pdis) DBL_MAX"
    by simp
  also have "\<dots> = Min (set (DBL_MAX # joint_limit_times bodies @ rigid_pair_times c pdis))"
    by (rule Min.set_eq_fold [symmetric])
  finally have eq: "calc_next_CA_Euler_step c bodies pdis thresh
          = Min (set (DBL_MAX # joint_limit_times bodies @ rigid_pair_times c pdis))" .
  moreover have "calc_next_CA_Euler_step c bodies pdis thresh = DBL_MAX"
    if "joint_limit_times bodies = []" and "rigid_pair_times c pdis = []"
    using that by (simp add: eq)
  ultimately show ?thesis by blast
qed

text \<open>
  Claim C7, a run of the theorem: one articulated body whose joint is at rest and one
  pair with a compliant body give the step \<open>DBL_MAX\<close>. The collision detector of the
  run answers with the distance of the pair.
\<close>

theorem calc_next_CA_Euler_step_min_witness:
  "joint_limit_times [ArticulatedBody [resting_joint]] = [] \<and>
   rigid_pair_times pdi_dist [compliant_pair] = [] \<and>
   calc_next_CA_Euler_step pdi_dist [ArticulatedBody [resting_joint]] [compliant_pair] 0 = DBL_MAX"
  using calc_next_CA_Euler_step_min
          [of pdi_dist "[ArticulatedBody [resting_joint]]" "[compliant_pair]" 0]
  by (simp add: resting_times compliant_times)

text \<open>
  Claim C7, as stated, takes the minimum over every pairwise-distance record. With no
  body and the one pair \<open>compliant_pair\<close>, whose conservative-advancement step is 1,
  that minimum is 1, and the function returns \<open>DBL_MAX\<close>.
\<close>

theorem calc_next_CA_Euler_step_all_pairs_counterexample:
  "calc_next_CA_Euler_step pdi_dist [] [compliant_pair] 0 = DBL_MAX \<and>
   Min (set (DBL_MAX # joint_limit_times [] @ spec_all_pair_times pdi_dist [compliant_pair])) = 1"
proof -
  have "calc_next_CA_Euler_step pdi_dist [] [compliant_pair] 0 = DBL_MAX"
    by (simp add: calc_next_as_Min joint_limit_times_def compliant_times)
  moreover have
    "Min (set (DBL_MAX # joint_limit_times [] @ spec_all_pair_times pdi_dist [compliant_pair])) = 1"
    using DBL_MAX_gt_1
    by (simp add: joint_limit_times_def spec_all_pair_times_def compliant_pair_def)
  ultimately show ?thesis by simp
qed

text \<open>
  Claim C10. A pair with a compliant body never contributes: the step is the one computed
  from the pairs without a compliant body alone, and when every pair has a compliant
  body and no joint moves toward a limit the step is \<open>DBL_MAX\<close>.
\<close>

theorem compliant_pairs_ignored:
  "calc_next_CA_Euler_step c bodies pdis thresh =
     calc_next_CA_Euler_step c bodies (filter (\<lambda>pdi. \<not> either_compliant pdi) pdis) thresh \<and>
   ((\<forall>pdi \<in> set pdis. either_compliant pdi) \<and> joint_limit_times bodies = [] \<longrightarrow>
      calc_next_CA_Euler_step c bodies pdis thresh = DBL_MAX)"
proof -
  have "rigid_pair_times c (filter (\<lambda>pdi. \<not> either_compliant pdi) pdis) = rigid_pair_times c pdis"
    by (simp add: rigid_pair_times_def)
  moreover have "(\<forall>pdi \<in> set pdis. either_compliant pdi) \<Longrightarrow> rigid_pair_times c pdis = []"
    by (simp add: rigid_pair_times_def filter_empty_conv)
  ultimately show ?thesis
    by (auto simp add: calc_next_as_Min)
qed

text \<open>
  Claim C10, a run of the theorem: a scene whose only pair has a compliant body and
  whose only joint is at rest.
\<close>

theorem compliant_pairs_ignored_witness:
  "either_compliant compliant_pair \<and>
   joint_limit_times [ArticulatedBody [resting_joint]] = [] \<and>
   calc_next_CA_Euler_step pdi_dist [ArticulatedBody [resting_joint]] [compliant_pair] 0 = DBL_MAX"
  using compliant_pairs_ignored
          [of pdi_dist "[ArticulatedBody [resting_joint]]" "[compliant_pair]" 0]
  by (simp add: resting_times either_compliant_def compliant_pair_def)

section \<open>Properties of the contact functions\<close>

lemma find_contacts_sphere_sphere_emits_iff:
  "find_contacts_sphere_sphere cA0 rA cB0 rB \<noteq> [] \<longleftrightarrow> v_norm (v_sub cA0 cB0) = rA + rB"
  by (auto simp add: find_contacts_sphere_sphere_def Let_def)

text \<open>
  Claim C4 at two overlapping spheres: centres \<open>(1, 0, 0)\<close> and \<open>(0, 0, 0)\<close>, both
  radii 1. The distance of the centres, 1, is at most the sum of the radii, 2, and
  \<open>find_contacts_sphere_sphere\<close> emits no contact.
\<close>

theorem find_contacts_sphere_sphere_overlapping:
  "v_norm (v_sub (1, 0, 0) (0, 0, 0)) \<le> 1 + 1 \<and>
   find_contacts_sphere_sphere (1, 0, 0) 1 (0, 0, 0) 1 = []"
  by (simp add: find_contacts_sphere_sphere_def)

lemma find_contacts_sphere_sphere_touching:
  assumes "v_norm (v_sub cA0 cB0) = rA + rB"
  shows "find_contacts_sphere_sphere cA0 rA cB0 rB =
           [create_contact
              (v_scale (v_add (v_sub cA0 (v_scale (v_normalize (v_sub cA0 cB0)) rA))
                              (v_add cB0 (v_scale (v_normalize (v_sub cA0 cB0)) rB))) (1 / 2))
              (v_normalize (v_sub cA0 cB0))]"
  using assms by (simp add: find_contacts_sphere_sphere_def Let_def)

lemma find_contacts_box_sphere_emits_iff:
  "0 \<le> NEAR_ZERO \<Longrightarrow>
   find_contacts_box_sphere NEAR_ZERO bg sg sv sdist pbox psph \<noteq> [] \<longleftrightarrow> NEAR_ZERO \<le> sdist"
  by (auto simp add: find_contacts_box_sphere_def Let_def)

text \<open>
  Claim C5 at a penetrating pair: the closest-point query returns the distance \<open>-1\<close>,
  and \<open>NEAR_ZERO\<close> is \<open>2^-26\<close>, the square root of the machine epsilon.
  \<open>find_contacts_box_sphere\<close> emits no contact, whatever the points and the poses.
\<close>

theorem find_contacts_box_sphere_penetrating:
  "find_contacts_box_sphere (1 / 2 ^ 26) box_point_to_global sphere_point_to_global
     sphere_vector_to_global (- 1) pbox psph = []"
  by (simp add: find_contacts_box_sphere_def)

section \<open>Properties of compute_s\<close>

lemma compute_s_initial_nonpositive_dist:
  "get_min_pairwise_dist pdi \<le> 0 \<Longrightarrow> compute_s_initial pdi = 0"
  by (simp add: compute_s_initial_def)

text \<open>
  Claim C6 says that \<open>compute_s\<close> returns \<open>max(0, -min_gap)\<close> plus the joint-limit
  violations, a positive number when two bodies interpenetrate. For one pair of rigid
  bodies at the signed distance -1 the minimum pairwise distance is -1, so that
  \<open>max(0, -min_gap)\<close> is 1; the first statement of \<open>compute_s\<close> gives \<open>s\<close> the
  value \<open>std::max(-1, 0.0) = 0\<close>.
\<close>

theorem compute_s_initial_penetrating:
  "get_min_pairwise_dist [penetrating_pair] = - 1 \<and>
   max 0 (- get_min_pairwise_dist [penetrating_pair]) = 1 \<and>
   compute_s_initial [penetrating_pair] = 0"
  using DBL_MAX_pos
  by (simp add: compute_s_initial_def get_min_pairwise_dist_def penetrating_pair_def)

section \<open>Properties of the position-integration loop\<close>

lemma advance_body_velocity:
  assumes "\<And>v b. get_generalized_velocity X eSpatial (set_generalized_coordinates_euler X v b)
                  = get_generalized_velocity X eSpatial b"
  shows "get_generalized_velocity X eSpatial (advance_body X step qs db)
           = get_generalized_velocity X eSpatial db"
  by (simp add: advance_body_def Let_def assms)

lemma advance_bodies_velocity:
  assumes "\<And>v b. get_generalized_velocity X eSpatial (set_generalized_coordinates_euler X v b)
                  = get_generalized_velocity X eSpatial b"
  shows "map (get_generalized_velocity X eSpatial) (sim_bodies (advance_bodies X step qsave s))
           = map (get_generalized_velocity X eSpatial) (sim_bodies s)"
proof -
  have "map (get_generalized_velocity X eSpatial) (sim_bodies (advance_bodies X step qsave s))
          = map (\<lambda>i. get_generalized_velocity X eSpatial (sim_bodies s ! i))
              [0..<length (sim_bodies s)]"
    by (simp add: advance_bodies_def advance_body_velocity [OF assms])
  also have "\<dots> = map (get_generalized_velocity X eSpatial) (sim_bodies s)"
    by (rule nth_equalityI) simp_all
  finally show ?thesis .
qed

lemma position_loop_velocity:
  assumes setter: "\<And>v b. get_generalized_velocity X eSpatial (set_generalized_coordinates_euler X v b)
                  = get_generalized_velocity X eSpatial b"
    and bp: "\<And>step s. sim_bodies (broad_phase X step s) = sim_bodies s"
    and pd: "\<And>s. sim_bodies (calc_pairwise_distances X s) = sim_bodies s"
    and run: "position_loop X min_step_size contact_dist_thresh dt qsave h s = Some (h', s')"
  shows "map (get_generalized_velocity X eSpatial) (sim_bodies s')
           = map (get_generalized_velocity X eSpatial) (sim_bodies s)"
  using run setter bp pd
proof (induction X min_step_size contact_dist_thresh dt qsave h s "(h', s')"
       rule: position_loop.raw_induct [rotated 1, consumes 1])
  case (1 loop X min_step_size contact_dist_thresh dt qsave h s)
  note IH = "1.hyps"(1) and body = "1.hyps"(2)
  show ?case
  proof (cases "h < dt")
    case False
    with body show ?thesis by simp
  next
    case True
    define s1 where "s1 = calc_pairwise_distances X (broad_phase X (dt - h) s)"
    define CA_step where "CA_step = calc_next_CA_Euler_step (coldet_CA_Euler_step X s1)
                         (map (as_dynamic X) (sim_bodies s1)) (sim_pairwise_distances s1)
                         contact_dist_thresh"
    have s1_bodies: "sim_bodies s1 = sim_bodies s"
      by (simp add: s1_def "1.prems")
    show ?thesis
    proof (cases "CA_step \<le> 0")
      case True
      with \<open>h < dt\<close> body have "s' = s1"
        by (auto simp add: Let_def s1_def CA_step_def)
      with s1_bodies show ?thesis by simp
    next
      case False
      define tc where "tc = min (dt - h) (max min_step_size CA_step)"
      from False \<open>h < dt\<close> body
      have "loop X min_step_size contact_dist_thresh dt qsave (h + tc)
              (advance_bodies X (h + tc) qsave s1) = Some (h', s')"
        by (simp add: Let_def s1_def CA_step_def tc_def)
      then have "map (get_generalized_velocity X eSpatial) (sim_bodies s')
                   = map (get_generalized_velocity X eSpatial)
                       (sim_bodies (advance_bodies X (h + tc) qsave s1))"
        using "1.prems" by (rule IH)
      then show ?thesis
        by (simp add: advance_bodies_velocity [OF "1.prems"(1)] s1_bodies)
    qed
  qed
qed


lemma point_run:
  "do_mini_step_positions point_externals (1 / 2 ^ 26) 0 1 point_scene
     = Some (1, \<lparr>sim_bodies = [([1], [1])], sim_pairwise_distances = [], sim_coldet = ()\<rparr>)"
proof -
  have ca: "calc_next_CA_Euler_step pdi_dist [FreeRigidBody] [] 0 = DBL_MAX"
    by (simp add: calc_next_CA_Euler_step_def)
  show ?thesis
    unfolding do_mini_step_positions_def
    apply (subst position_loop.simps)
    apply (simp add: point_externals_def point_scene_def save_coordinates_def ca Let_def
        advance_bodies_def advance_body_def)
    apply (subst position_loop.simps)
    using DBL_MAX_gt_1 apply (simp add: max_def min_def)
    done
qed

text \<open>
  Claim C8. The position-integration loop of \<open>do_mini_step\<close> calls, on the bodies,
  only the setter of the coordinates and the getter of the velocity. So when the setter
  of the coordinates keeps the generalized velocity of a body, and \<open>broad_phase\<close> and
  \<open>calc_pairwise_distances\<close> keep the bodies, the generalized velocity of every body
  at the exit of the loop is the one on entry to \<open>do_mini_step\<close>. The loop that
  adds \<open>qdd * h\<close> to the velocities follows the position-integration loop in
  \<open>do_mini_step\<close>.
\<close>

theorem do_mini_step_positions_keep_velocity:
  assumes "\<And>v b. get_generalized_velocity X eSpatial (set_generalized_coordinates_euler X v b)
                  = get_generalized_velocity X eSpatial b"
    and "\<And>step s. sim_bodies (broad_phase X step s) = sim_bodies s"
    and "\<And>s. sim_bodies (calc_pairwise_distances X s) = sim_bodies s"
    and "do_mini_step_positions X min_step_size contact_dist_thresh dt s = Some (h, s')"
  shows "map (get_generalized_velocity X eSpatial) (sim_bodies s')
           = map (get_generalized_velocity X eSpatial) (sim_bodies s)"
  using assms(4) unfolding do_mini_step_positions_def
  by (rule position_loop_velocity [OF assms(1-3)])

text \<open>
  Claim C8, a run of the theorem: one body with velocity 1 is advanced from coordinate 0
  to coordinate 1 in one pass, and keeps its velocity.
\<close>

theorem do_mini_step_positions_keep_velocity_witness:
  "do_mini_step_positions point_externals (1 / 2 ^ 26) 0 1 point_scene
     = Some (1, \<lparr>sim_bodies = [([1], [1])], sim_pairwise_distances = [], sim_coldet = ()\<rparr>) \<and>
   map (get_generalized_velocity point_externals eSpatial) [([1], [1])]
     = map (get_generalized_velocity point_externals eSpatial) (sim_bodies point_scene)"
proof -
  have "map (get_generalized_velocity point_externals eSpatial)
          (sim_bodies \<lparr>sim_bodies = [([1], [1])], sim_pairwise_distances = [], sim_coldet = ()\<rparr>)
        = map (get_generalized_velocity point_externals eSpatial) (sim_bodies point_scene)"
    by (rule do_mini_step_positions_keep_velocity [OF _ _ _ point_run])
       (simp_all add: point_externals_def)
  with point_run show ?thesis by simp
qed


section \<open>Properties of lcp_lemke\<close>

lemma DBL_EPSILON_pos: "0 < DBL_EPSILON"
  by (simp add: DBL_EPSILON_def)

lemma lcp_lemke_trivial:
  assumes "1 \<le> length q"
    and "Min (set q) > - lemke_zero_tol LA M (length q) zero_tol"
  shows "lcp_lemke LA M q z0 piv_tol zero_tol = (True, replicate (length q) 0, TrivialSolution, 0)"
proof -
  from assms(1) have "length q \<noteq> 0" by auto
  with assms(2) show ?thesis
    by (simp add: lcp_lemke_def Let_def)
qed

lemma lcp_lemke_sparse_trivial:
  assumes "1 \<le> length q"
    and "Min (set q) > - lemke_zero_tol LA M (length q) zero_tol"
  shows "lcp_lemke_sparse LA d_member M q z0 piv_tol zero_tol
           = Inr (True, replicate (length q) 0, TrivialSolution, 0)"
proof -
  from assms(1) have "length q \<noteq> 0" by auto
  with assms(2) show ?thesis
    by (simp add: lcp_lemke_sparse_def Let_def)
qed

lemma lcp_lemke_identity_example:
  assumes "0 \<le> mat_norm_inf LA (identity 3)"
  shows "lcp_lemke LA (identity 3) [1, 2, 3] z0 piv_tol zero_tol
           = (True, [0, 0, 0], TrivialSolution, 0)"
proof -
  have len: "length [1, 2, 3 :: real] = 3" by simp
  have "0 \<le> lemke_zero_tol LA (identity 3) 3 zero_tol"
    using assms DBL_EPSILON_pos by (simp add: lemke_zero_tol_def)
  then have "Min (set [1, 2, 3 :: real]) > - lemke_zero_tol LA (identity 3) 3 zero_tol"
    by simp
  then show ?thesis
    using lcp_lemke_trivial [of "[1, 2, 3]" LA "identity 3" zero_tol z0 piv_tol]
    unfolding len by (simp add: numeral_3_eq_3)
qed

lemma replicate_two: "replicate 2 x = [x, x]"
  by (simp add: numeral_2_eq_2)

lemmas lemke_run_defs =
  lcp_lemke_def scalar_LinAlgd_def Let_def u32_def initial_bas_def
  initial_nonbas_def negate_def identity_def solve_cascade_def min_element_index_def
  mult_def set_column_def write_back_def entering_variable_def get_column_def
  pivot_candidates_def PIV_TOL_def min_ratio_def ratio_filter_def leaving_index_def
  pivot_x_def lemke_zero_tol_def DBL_EPSILON_def replicate_two lemke_loop.simps

lemma lcp_lemke_boundary_run:
  "lcp_lemke scalar_LinAlgd [[1]] [- 1] [] 0 1 = (True, [1], Solved, 1)"
  by (simp add: lemke_run_defs)

text \<open>
  Claim C2, as the code has it. For \<open>q\<close> of size \<open>n \<ge> 1\<close>, if \<open>min(q)\<close> is
  strictly greater than \<open>-TAU0\<close>, where \<open>TAU0\<close> is the zero tolerance of
  \<open>lcp_lemke\<close>, then the dense and the sparse \<open>lcp_lemke\<close> return success with
  \<open>z\<close> the zero vector of length \<open>n\<close>, by the trivial exit and before any pass of
  the pivoting loop.
\<close>

theorem lcp_lemke_trivial_exit:
  assumes "1 \<le> length q"
    and "Min (set q) > - lemke_zero_tol LA M (length q) zero_tol"
  shows "lcp_lemke LA M q z0 piv_tol zero_tol
           = (True, replicate (length q) 0, TrivialSolution, 0) \<and>
         lcp_lemke_sparse LA d_member M q z0 piv_tol zero_tol
           = Inr (True, replicate (length q) 0, TrivialSolution, 0)"
  using lcp_lemke_trivial [OF assms] lcp_lemke_sparse_trivial [OF assms] by simp

text \<open>
  Claim C2, a run of the theorem, which is the example of the specification: \<open>M\<close> the
  identity of size 3 and \<open>q = [1, 2, 3]\<close> give \<open>z = [0, 0, 0]\<close>.
\<close>

theorem lcp_lemke_trivial_exit_witness:
  "Min (set [1, 2, 3 :: real]) > - lemke_zero_tol scalar_LinAlgd (identity 3) 3 0 \<and>
   lcp_lemke scalar_LinAlgd (identity 3) [1, 2, 3] [] 0 0 = (True, [0, 0, 0], TrivialSolution, 0) \<and>
   lcp_lemke_sparse scalar_LinAlgd [] (identity 3) [1, 2, 3] [] 0 0
     = Inr (True, [0, 0, 0], TrivialSolution, 0)"
proof -
  have tol: "lemke_zero_tol scalar_LinAlgd (identity 3) 3 0 = 3 * DBL_EPSILON"
    by (simp add: lemke_zero_tol_def scalar_LinAlgd_def identity_def upt_rec)
  have len: "length [1, 2, 3 :: real] = 3" by simp
  have h: "Min (set [1, 2, 3 :: real]) > - lemke_zero_tol scalar_LinAlgd (identity 3) 3 0"
    using DBL_EPSILON_pos by (simp add: tol)
  show ?thesis
    using lcp_lemke_trivial_exit [of "[1, 2, 3]" scalar_LinAlgd "identity 3" 0 "[]" 0 "[]"] h
    unfolding len by (simp add: numeral_3_eq_3)
qed

text \<open>
  Claim C2, as stated, takes the trivial exit already when \<open>min(q) = -TAU0\<close>. With
  \<open>M = [[1]]\<close>, \<open>q = [-1]\<close> and the zero tolerance 1 the minimum of \<open>q\<close> is
  \<open>-TAU0\<close>; the function does not take the trivial exit, pivots once and returns
  \<open>z = [1]\<close>.
\<close>

theorem lcp_lemke_boundary_counterexample:
  "Min (set [- 1 :: real]) \<ge> - lemke_zero_tol scalar_LinAlgd [[1]] 1 1 \<and>
   lcp_lemke scalar_LinAlgd [[1]] [- 1] [] 0 1 = (True, [1], Solved, 1)"
  using lcp_lemke_boundary_run by (simp add: lemke_zero_tol_def)

subsection \<open>The iteration cap\<close>

lemma lemke_loop_within_cap:
  "iter \<le> MAXITER \<Longrightarrow>
   within_cap MAXITER (lemke_loop LA M n piv_tol zero_tol MAXITER iter leaving bas x Bl z)"
proof (induction LA M n piv_tol zero_tol MAXITER iter leaving bas x Bl z rule: lemke_loop.induct)
  case (1 LA M n piv_tol zero_tol MAXITER iter leaving bas x Bl z)
  show ?case
  proof (cases "iter < MAXITER")
    case False
    with "1.prems" show ?thesis
      by (subst lemke_loop.simps) (simp add: within_cap_def)
  next
    case True
    then have "Suc iter \<le> MAXITER" by simp
    note IH = "1.IH" [OF True _ refl refl refl refl _ refl refl refl refl _ refl this]
    show ?thesis
      apply (subst lemke_loop.simps)
      using True IH
      apply (simp add: Let_def within_cap_def)
      done
  qed
qed

lemma sparse_lemke_loop_within_cap:
  "iter \<le> MAXITER \<Longrightarrow>
   sparse_lemke_loop LA d_member M n piv_tol zero_tol MAXITER iter leaving bas x sBl z = Inr r \<Longrightarrow>
   within_cap MAXITER r"
proof (induction LA d_member M n piv_tol zero_tol MAXITER iter leaving bas x sBl z
       rule: sparse_lemke_loop.induct)
  case (1 LA d_member M n piv_tol zero_tol MAXITER iter leaving bas x sBl z)
  show ?case
  proof (cases "iter < MAXITER")
    case False
    with "1.prems" show ?thesis
      by (subst (asm) sparse_lemke_loop.simps) (auto simp add: within_cap_def)
  next
    case True
    then have "Suc iter \<le> MAXITER" by simp
    note IH = "1.IH" [OF True _ refl refl refl refl _ _ refl refl refl refl _ refl this]
    from "1.prems"(2) True IH show ?thesis
      by (subst (asm) sparse_lemke_loop.simps)
         (auto simp add: Let_def within_cap_def split: if_splits)
  qed
qed

lemma u32_le: "u32 k \<le> k"
  by (simp add: u32_def)

lemma lcp_lemke_within_cap:
  "within_cap (min 1000 (u32 (50 * length q))) (lcp_lemke LA M q z0 piv_tol zero_tol)"
  by (simp add: lcp_lemke_def Let_def lemke_loop_within_cap) (simp add: within_cap_def)

lemma lcp_lemke_sparse_within_cap:
  assumes "lcp_lemke_sparse LA d_member M q z0 piv_tol zero_tol = Inr r"
  shows "within_cap (min 1000 (u32 (50 * length q))) r"
  using assms
  by (auto simp add: lcp_lemke_sparse_def Let_def within_cap_def split: if_splits
           dest: sparse_lemke_loop_within_cap [rotated, unfolded within_cap_def])

text \<open>
  Both functions respect the cap: the loop counter on return is at most
  \<open>min(1000, 50 n)\<close>, and a call that ends by exceeding the cap returns failure.
\<close>

lemma lcp_lemke_iterations:
  assumes "lcp_lemke LA M q z0 piv_tol zero_tol = (ok, z, how, iters)"
  shows "iters \<le> min 1000 (50 * length q) \<and> (how = MaxIterExceeded \<longrightarrow> \<not> ok)"
  using lcp_lemke_within_cap [of q LA M z0 piv_tol zero_tol] u32_le [of "50 * length q"] assms
  by (auto simp add: within_cap_def)

lemma lcp_lemke_sparse_iterations:
  assumes "lcp_lemke_sparse LA d_member M q z0 piv_tol zero_tol = Inr (ok, z, how, iters)"
  shows "iters \<le> min 1000 (50 * length q) \<and> (how = MaxIterExceeded \<longrightarrow> \<not> ok)"
  using lcp_lemke_sparse_within_cap [OF assms] u32_le [of "50 * length q"]
  by (auto simp add: within_cap_def)

text \<open>
  The sparse function returns a result whenever the member \<open>_d\<close> has at least
  \<open>n\<close> entries (and \<open>M\<close> has \<open>n\<close> rows, and the solver keeps the length of
  its right-hand side).
\<close>

lemma entering_variable_length:
  "length M = n \<Longrightarrow> length (snd (entering_variable M n leaving)) = n"
  by (simp add: entering_variable_def get_column_def)

lemma pivot_candidates_bound: "i \<in> set (pivot_candidates dl tol) \<Longrightarrow> i < length dl"
  by (simp add: pivot_candidates_def)

lemma sparse_lemke_loop_returns:
  assumes "\<And>B b. length (solve_sparse_direct LA B b) = length b"
    and "length M = n"
    and "n \<le> length d_member"
  shows "\<exists>r. sparse_lemke_loop LA d_member M n piv_tol zero_tol MAXITER iter leaving bas x sBl z
               = Inr r"
  using assms
proof (induction LA d_member M n piv_tol zero_tol MAXITER iter leaving bas x sBl z
       rule: sparse_lemke_loop.induct)
  case (1 LA d_member M n piv_tol zero_tol MAXITER iter leaving bas x sBl z)
  let ?Be = "snd (entering_variable M n leaving)"
  let ?dl = "solve_sparse_direct LA sBl ?Be"
  let ?j = "pivot_candidates ?dl (PIV_TOL LA n piv_tol ?Be)"
  have "length ?dl = n"
    using "1.prems"(1,2) by (simp add: entering_variable_length)
  then have in_range: "\<not> (\<exists>i \<in> set ?j. length d_member \<le> i)"
    using pivot_candidates_bound [of _ ?dl] "1.prems"(3) by fastforce
  show ?case
  proof (cases "iter < MAXITER")
    case False
    then show ?thesis
      by (subst sparse_lemke_loop.simps) auto
  next
    case True
    note IH = "1.IH" [OF True _ refl refl refl refl _ in_range refl refl refl refl _ refl
                      "1.prems"]
    show ?thesis
      apply (subst sparse_lemke_loop.simps)
      using True in_range IH
      apply (auto simp add: Let_def)
      done
  qed
qed

lemma lcp_lemke_sparse_returns:
  assumes "\<And>B b. length (solve_sparse_direct LA B b) = length b"
    and "length M = length q"
    and "length q \<le> length d_member"
  shows "\<exists>r. lcp_lemke_sparse LA d_member M q z0 piv_tol zero_tol = Inr r"
  using sparse_lemke_loop_returns [OF assms(1) assms(2) assms(3)]
  by (auto simp add: lcp_lemke_sparse_def Let_def)

lemmas sparse_run_defs =
  lcp_lemke_sparse_def scalar_LinAlgd_def Let_def u32_def initial_bas_def
  initial_nonbas_def negate_def identity_def min_element_index_def sparse_basis_def
  mult_def set_column_def write_back_def entering_variable_def get_column_def
  pivot_candidates_def PIV_TOL_def min_ratio_def ratio_filter_def leaving_index_def
  pivot_x_def lemke_zero_tol_def DBL_EPSILON_def replicate_two sparse_lemke_loop.simps

text \<open>
  Claim C9 at a call of the sparse \<open>lcp_lemke\<close> on an \<open>LCP\<close> object whose member
  \<open>_d\<close> is empty, as the constructor leaves it: \<open>M = [[1]]\<close>, \<open>q = [-1]\<close>. In
  the first pass of the pivoting loop the function reads \<open>_d[0]\<close>, past the end of
  \<open>_d\<close>, and so ends with neither success nor failure. The dense function, on the
  same problem, returns success after one pass.
\<close>

theorem lcp_lemke_sparse_reads_stale_member:
  "lcp_lemke_sparse scalar_LinAlgd [] [[1]] [- 1] [] 0 0 = Inl OutOfRange"
  by (simp add: sparse_run_defs)

lemma lcp_lemke_dense_same_input:
  "lcp_lemke scalar_LinAlgd [[1]] [- 1] [] 0 0 = (True, [1], Solved, 1)"
  by (simp add: lemke_run_defs)

section \<open>Properties of lcp_lemke_regularized\<close>

lemma ZERO_TOL_pos: "1 \<le> length q \<Longrightarrow> 0 < ZERO_TOL LA q zero_tol"
  using DBL_EPSILON_pos by (auto simp add: ZERO_TOL_def zero_less_mult_iff)

lemma Min_ge_all: "- tol \<le> Min (set xs) \<Longrightarrow> \<forall>v \<in> set xs. - tol \<le> (v::real)"
  by (cases "xs = []") simp_all

lemma Max_less_all: "Max (set xs) < tol \<Longrightarrow> \<forall>v \<in> set xs. (v::real) < tol"
  by (cases "xs = []") simp_all

lemma sum_list_abs_bound:
  assumes "\<forall>v \<in> set xs. \<bar>v\<bar> \<le> (tol::real)"
  shows "\<bar>sum_list xs\<bar> \<le> real (length xs) * tol"
  using assms
proof (induction xs)
  case Nil
  then show ?case by simp
next
  case (Cons x xs)
  then have "\<bar>x\<bar> \<le> tol" and "\<bar>sum_list xs\<bar> \<le> real (length xs) * tol"
    by simp_all
  then have "\<bar>x + sum_list xs\<bar> \<le> tol + real (length xs) * tol"
    by linarith
  then show ?case by (simp add: algebra_simps)
qed

text \<open>
  What the three checks give: bounds on the entries of \<open>z\<close>, of the computed \<open>w\<close>
  and of the computed products, and with them a bound on the sum of these products.
\<close>

lemma verified_bounds:
  assumes ver: "verified LA MM q z tol"
    and tol: "0 < tol"
    and len: "length z \<le> n"
  shows "(\<forall>v \<in> set z. - tol \<le> v) \<and>
         (\<forall>v \<in> set (checked_w LA MM z q). - tol \<le> v) \<and>
         (\<forall>p \<in> set (checked_products LA z (checked_w LA MM z q)). - tol \<le> p \<and> p < tol) \<and>
         \<bar>sum_list (checked_products LA z (checked_w LA MM z q))\<bar> \<le> real n * tol"
proof -
  let ?w = "checked_w LA MM z q"
  let ?zw = "checked_products LA z ?w"
  from ver have z: "- tol \<le> Min (set z)" and w: "- tol \<le> Min (set ?w)"
    and lo: "- tol \<le> Min (set ?zw)" and hi: "Max (set ?zw) < tol"
    by (simp_all add: verified_def Let_def)
  have products: "\<forall>p \<in> set ?zw. - tol \<le> p \<and> p < tol"
    using Min_ge_all [OF lo] Max_less_all [OF hi] by blast
  then have "\<forall>v \<in> set ?zw. \<bar>v\<bar> \<le> tol"
    by fastforce
  then have "\<bar>sum_list ?zw\<bar> \<le> real (length ?zw) * tol"
    by (rule sum_list_abs_bound)
  also have "\<dots> \<le> real n * tol"
    using tol len by (simp add: checked_products_def mult_right_mono)
  finally have "\<bar>sum_list ?zw\<bar> \<le> real n * tol" .
  with Min_ge_all [OF z] Min_ge_all [OF w] products show ?thesis
    by blast
qed

lemma verified_strictly_verified:
  "verified_strictly LA MM q z tol \<Longrightarrow> verified LA MM q z tol"
  by (auto simp add: verified_strictly_def verified_def Let_def)

lemma write_back_length: "length (write_back bas x z) = length z"
proof -
  have "length (fold (\<lambda>(idx, b) z'. z'[b := x ! idx]) ps z) = length z" for ps
    by (induction ps arbitrary: z) (simp_all add: split_beta)
  then show ?thesis by (simp add: write_back_def)
qed

lemma lemke_loop_length:
  "n \<le> length z \<Longrightarrow>
   length (fst (snd (lemke_loop LA M n piv_tol zero_tol MAXITER iter leaving bas x Bl z))) = n"
proof (induction LA M n piv_tol zero_tol MAXITER iter leaving bas x Bl z rule: lemke_loop.induct)
  case (1 LA M n piv_tol zero_tol MAXITER iter leaving bas x Bl z)
  show ?case
  proof (cases "iter < MAXITER")
    case False
    with "1.prems" show ?thesis
      by (subst lemke_loop.simps) simp
  next
    case True
    note IH = "1.IH" [OF True _ refl refl refl refl _ refl refl refl refl _ refl "1.prems"]
    show ?thesis
      apply (subst lemke_loop.simps)
      using True IH "1.prems"
      apply (simp add: Let_def write_back_length)
      done
  qed
qed

lemma lcp_lemke_length:
  assumes "length q < 2 ^ 31"
  shows "length (fst (snd (lcp_lemke LA M q z0 piv_tol zero_tol))) = length q"
proof -
  from assms have "u32 (length q * 2) = length q * 2"
    by (simp add: u32_def)
  then show ?thesis
    by (simp add: lcp_lemke_def Let_def write_back_length lemke_loop_length)
qed

lemma lemke_loop_length_le:
  "length (fst (snd (lemke_loop LA M n piv_tol zero_tol MAXITER iter leaving bas x Bl z))) \<le> n"
proof (induction LA M n piv_tol zero_tol MAXITER iter leaving bas x Bl z rule: lemke_loop.induct)
  case (1 LA M n piv_tol zero_tol MAXITER iter leaving bas x Bl z)
  show ?case
  proof (cases "iter < MAXITER")
    case False
    then show ?thesis
      by (subst lemke_loop.simps) simp
  next
    case True
    note IH = "1.IH" [OF True _ refl refl refl refl _ refl refl refl refl _ refl]
    show ?thesis
      apply (subst lemke_loop.simps)
      using True IH
      apply (simp add: Let_def)
      done
  qed
qed

lemma lcp_lemke_length_le:
  "length (fst (snd (lcp_lemke LA M q z0 piv_tol zero_tol))) \<le> length q"
  by (simp add: lcp_lemke_def Let_def lemke_loop_length_le)

text \<open>
  A pass of the regularization loop that returns success has solved the regularized
  problem, and its solution has passed the checks on the regularized matrix.
\<close>

lemma regularized_attempt_verified:
  assumes "regularized_attempt LA M q piv_tol zero_tol rf z0 = (True, z)"
  shows "fst (lcp_lemke LA (regularize LA M (dbl_pow10 LA rf)) q z0 piv_tol zero_tol) \<and>
         z = fst (snd (lcp_lemke LA (regularize LA M (dbl_pow10 LA rf)) q z0 piv_tol zero_tol)) \<and>
         verified LA (regularize LA M (dbl_pow10 LA rf)) q z (ZERO_TOL LA q zero_tol)"
  using assms
  by (auto simp add: regularized_attempt_def Let_def intro: verified_strictly_verified)

lemma runs_pass_Suc:
  assumes "rf < max_exp"
    and "\<not> fst (regularized_attempt LA M q piv_tol zero_tol rf z)"
    and "runs_pass LA M q step_exp max_exp piv_tol zero_tol (int32 (rf + int step_exp))
           (snd (regularized_attempt LA M q piv_tol zero_tol rf z)) k"
  shows "runs_pass LA M q step_exp max_exp piv_tol zero_tol rf z (Suc k)"
proof -
  let ?st = "\<lambda>j. pass_state LA M q step_exp piv_tol zero_tol j rf z"
  from assms(3) have "fst (?st (Suc k)) < max_exp"
    by (simp add: runs_pass_def)
  moreover have "fst (?st j) < max_exp \<and>
                 \<not> fst (regularized_attempt LA M q piv_tol zero_tol (fst (?st j)) (snd (?st j)))"
    if "j < Suc k" for j
  proof (cases j)
    case 0
    with assms(1,2) show ?thesis by simp
  next
    case (Suc i)
    with that have "i < k" by simp
    with assms(3) Suc show ?thesis
      by (simp add: runs_pass_def)
  qed
  ultimately show ?thesis
    unfolding runs_pass_def by blast
qed

text \<open>
  A successful return of the regularization loop comes from a pass that the loop runs
  and that returns success.
\<close>

lemma regularization_loop_success:
  assumes "regularization_loop LA M q step_exp max_exp piv_tol zero_tol rf z0 = Some (True, z)"
  shows "\<exists>k. runs_pass LA M q step_exp max_exp piv_tol zero_tol rf z0 k \<and>
             regularized_attempt LA M q piv_tol zero_tol
               (fst (pass_state LA M q step_exp piv_tol zero_tol k rf z0))
               (snd (pass_state LA M q step_exp piv_tol zero_tol k rf z0)) = (True, z)"
  using assms
proof (induction LA M q step_exp max_exp piv_tol zero_tol rf z0 "(True, z)"
       rule: regularization_loop.raw_induct [rotated 1, consumes 1])
  case (1 loop LA M q step_exp max_exp piv_tol zero_tol rf z0)
  note IH = "1.hyps"(1) and body = "1.hyps"(2)
  show ?case
  proof (cases "rf < max_exp")
    case False
    with body show ?thesis by simp
  next
    case below: True
    show ?thesis
    proof (cases "fst (regularized_attempt LA M q piv_tol zero_tol rf z0)")
      case True
      with below body
      have "regularized_attempt LA M q piv_tol zero_tol rf z0 = (True, z)"
        by (auto simp add: prod_eq_iff)
      moreover from below have "runs_pass LA M q step_exp max_exp piv_tol zero_tol rf z0 0"
        by (simp add: runs_pass_def)
      ultimately have "runs_pass LA M q step_exp max_exp piv_tol zero_tol rf z0 0 \<and>
             regularized_attempt LA M q piv_tol zero_tol
               (fst (pass_state LA M q step_exp piv_tol zero_tol 0 rf z0))
               (snd (pass_state LA M q step_exp piv_tol zero_tol 0 rf z0)) = (True, z)"
        by simp
      then show ?thesis by blast
    next
      case False
      let ?rf = "int32 (rf + int step_exp)"
      let ?z = "snd (regularized_attempt LA M q piv_tol zero_tol rf z0)"
      from below False body have "loop LA M q step_exp max_exp piv_tol zero_tol ?rf ?z = Some (True, z)"
        by simp
      from IH [OF this] obtain k
        where run: "runs_pass LA M q step_exp max_exp piv_tol zero_tol ?rf ?z k"
          and acc: "regularized_attempt LA M q piv_tol zero_tol
                      (fst (pass_state LA M q step_exp piv_tol zero_tol k ?rf ?z))
                      (snd (pass_state LA M q step_exp piv_tol zero_tol k ?rf ?z)) = (True, z)"
        by blast
      from runs_pass_Suc [OF below False run] acc
      have "runs_pass LA M q step_exp max_exp piv_tol zero_tol rf z0 (Suc k) \<and>
             regularized_attempt LA M q piv_tol zero_tol
               (fst (pass_state LA M q step_exp piv_tol zero_tol (Suc k) rf z0))
               (snd (pass_state LA M q step_exp piv_tol zero_tol (Suc k) rf z0)) = (True, z)"
        by simp
      then show ?thesis by blast
    qed
  qed
qed

text \<open>
  A successful return of \<open>lcp_lemke_regularized\<close> comes from the solve without
  regularization, or from a pass that the regularization loop runs; in both cases the
  solve returned \<open>true\<close> with the vector \<open>z\<close> that is returned, and \<open>z\<close> passed
  the checks on the matrix of that solve.
\<close>

lemma lcp_lemke_regularized_verified:
  assumes n: "1 \<le> length q"
    and run: "lcp_lemke_regularized LA M q z0 min_exp step_exp max_exp piv_tol zero_tol
                = Some (True, z)"
  shows "\<exists>MM z'.
           (MM = M \<and> z' = z0 \<or>
            (\<exists>k. runs_pass LA M q step_exp max_exp piv_tol zero_tol min_exp
                    (fst (snd (lcp_lemke LA M q z0 piv_tol zero_tol))) k \<and>
                  MM = regularize LA M
                         (dbl_pow10 LA
                           (fst (pass_state LA M q step_exp piv_tol zero_tol k min_exp
                                  (fst (snd (lcp_lemke LA M q z0 piv_tol zero_tol)))))) \<and>
                  z' = snd (pass_state LA M q step_exp piv_tol zero_tol k min_exp
                              (fst (snd (lcp_lemke LA M q z0 piv_tol zero_tol)))))) \<and>
           fst (lcp_lemke LA MM q z' piv_tol zero_tol) \<and>
           z = fst (snd (lcp_lemke LA MM q z' piv_tol zero_tol)) \<and>
           verified LA MM q z (ZERO_TOL LA q zero_tol)"
proof -
  let ?r = "lcp_lemke LA M q z0 piv_tol zero_tol"
  let ?tol = "ZERO_TOL LA q zero_tol"
  from n have ne: "q \<noteq> []" by auto
  show ?thesis
  proof (cases "fst ?r \<and> verified LA M q (fst (snd ?r)) ?tol")
    case True
    with ne run have "z = fst (snd ?r)"
      by (simp add: lcp_lemke_regularized_def Let_def)
    with True show ?thesis by blast
  next
    case False
    with ne run
    have "regularization_loop LA M q step_exp max_exp piv_tol zero_tol min_exp (fst (snd ?r))
            = Some (True, z)"
      by (simp add: lcp_lemke_regularized_def Let_def)
    from regularization_loop_success [OF this] obtain k
      where run: "runs_pass LA M q step_exp max_exp piv_tol zero_tol min_exp (fst (snd ?r)) k"
        and acc: "regularized_attempt LA M q piv_tol zero_tol
                    (fst (pass_state LA M q step_exp piv_tol zero_tol k min_exp (fst (snd ?r))))
                    (snd (pass_state LA M q step_exp piv_tol zero_tol k min_exp (fst (snd ?r))))
                  = (True, z)"
      by blast
    from regularized_attempt_verified [OF acc] run show ?thesis by blast
  qed
qed

lemma int32_id: "- (2 ^ 31) \<le> k \<Longrightarrow> k < 2 ^ 31 \<Longrightarrow> int32 k = k"
  by (simp add: int32_def)

lemma int32_1: "int32 1 = 1"
  by (simp add: int32_def)

lemma runs_pass_tail:
  assumes "runs_pass LA M q step_exp max_exp piv_tol zero_tol rf z (Suc k)"
  shows "rf < max_exp \<and>
         runs_pass LA M q step_exp max_exp piv_tol zero_tol (int32 (rf + int step_exp))
           (snd (regularized_attempt LA M q piv_tol zero_tol rf z)) k"
proof -
  let ?st = "\<lambda>j. pass_state LA M q step_exp piv_tol zero_tol j rf z"
  from assms have last: "fst (?st (Suc k)) < max_exp"
    and before: "\<And>j. j < Suc k \<Longrightarrow> fst (?st j) < max_exp \<and>
                   \<not> fst (regularized_attempt LA M q piv_tol zero_tol (fst (?st j)) (snd (?st j)))"
    by (simp_all add: runs_pass_def)
  from before [of 0] have "rf < max_exp" by simp
  moreover from last before [of "Suc j" for j]
  have "runs_pass LA M q step_exp max_exp piv_tol zero_tol (int32 (rf + int step_exp))
           (snd (regularized_attempt LA M q piv_tol zero_tol rf z)) k"
    by (simp add: runs_pass_def)
  ultimately show ?thesis by blast
qed

text \<open>
  While the exponents stay in the range of \<open>int\<close>, the exponent of pass \<open>k\<close> of
  a loop entered with \<open>rf\<close> is \<open>rf + k * step_exp\<close>.
\<close>

lemma pass_state_exponent:
  assumes "- (2 ^ 31) \<le> rf" and "max_exp + int step_exp \<le> 2 ^ 31"
    and "runs_pass LA M q step_exp max_exp piv_tol zero_tol rf z k"
  shows "fst (pass_state LA M q step_exp piv_tol zero_tol k rf z) = rf + int k * int step_exp"
  using assms
proof (induction k arbitrary: rf z)
  case 0
  then show ?case by simp
next
  case (Suc k)
  from runs_pass_tail [OF Suc.prems(3)]
  have below: "rf < max_exp"
    and tail: "runs_pass LA M q step_exp max_exp piv_tol zero_tol (int32 (rf + int step_exp))
                 (snd (regularized_attempt LA M q piv_tol zero_tol rf z)) k"
    by simp_all
  from below Suc.prems(1,2) have wrap: "int32 (rf + int step_exp) = rf + int step_exp"
    by (intro int32_id) simp_all
  from Suc.prems(1) have "- (2 ^ 31) \<le> rf + int step_exp" by simp
  from Suc.IH [OF this Suc.prems(2) tail [unfolded wrap]] show ?case
    by (simp add: wrap algebra_simps)
qed

lemma run_unregularized:
  "lcp_lemke scalar_LinAlgd [[- 1]] [- 9] [] 0 0 = (False, [0], RayTermination, 0)"
  by (simp add: lemke_run_defs)

lemma run_lambda_1: "regularized_attempt scalar_LinAlgd [[- 1]] [- 9] 0 0 0 [0] = (False, [0])"
  by (simp add: regularized_attempt_def regularize_def lemke_run_defs)

lemma run_lambda_10: "regularized_attempt scalar_LinAlgd [[- 1]] [- 9] 0 0 1 [0] = (True, [1])"
  by (simp add: regularized_attempt_def regularize_def verified_strictly_def ZERO_TOL_def
      checked_w_def checked_products_def lemke_run_defs)

lemma run_regularized:
  "lcp_lemke_regularized scalar_LinAlgd [[- 1]] [- 9] [] 0 1 2 0 0 = Some (True, [1])"
proof -
  have "regularization_loop scalar_LinAlgd [[- 1]] [- 9] 1 2 0 0 0 [0] = Some (True, [1])"
    apply (subst regularization_loop.simps)
    apply (simp add: run_lambda_1 int32_1)
    apply (subst regularization_loop.simps)
    apply (simp add: run_lambda_10)
    done
  then show ?thesis
    by (simp add: lcp_lemke_regularized_def run_unregularized)
qed

lemma run_passes:
  "pass_state scalar_LinAlgd [[- 1]] [- 9] 1 0 0 1 0 [0] = (1, [0]) \<and>
   runs_pass scalar_LinAlgd [[- 1]] [- 9] 1 2 0 0 0 [0] 1"
  by (simp add: runs_pass_def run_lambda_1 int32_1)

lemma run_accepted_matrix:
  "regularize scalar_LinAlgd [[- 1]] (dbl_pow10 scalar_LinAlgd 1) = [[9]] \<and>
   lcp_lemke scalar_LinAlgd [[9]] [- 9] [0] 0 0 = (True, [1], Solved, 1) \<and>
   checked_w scalar_LinAlgd [[9]] [1] [- 9] = [0] \<and>
   checked_products scalar_LinAlgd [1] [0] = [0]"
  by (simp add: regularize_def checked_w_def checked_products_def lemke_run_defs)

text \<open>
  Claim C1, as the code has it. For \<open>q\<close> of length \<open>n \<ge> 1\<close>, when
  \<open>lcp_lemke_regularized\<close> returns success with \<open>z\<close>, there are a matrix \<open>MM\<close>
  and a start vector \<open>z'\<close> of the solve that was accepted: either \<open>MM\<close> is \<open>M\<close>
  and the solve is the one without regularization, from the \<open>z\<close> on entry, or the
  regularization loop runs a pass \<open>k\<close>, \<open>MM\<close> is \<open>M\<close> regularized with the factor
  of the exponent of that pass, and \<open>z'\<close> is the vector with which that pass starts.
  \<open>lcp_lemke\<close> on \<open>MM\<close> from \<open>z'\<close> returned \<open>true\<close> with \<open>z\<close>. Every entry of
  \<open>z\<close>, and every entry of the vector \<open>w\<close> that the check computes as \<open>MM z + q\<close>
  in the arithmetic of doubles, is at least \<open>-ZERO_TOL\<close>; every product
  \<open>z\<^sub>i w\<^sub>i\<close> that the check computes is at least \<open>-ZERO_TOL\<close> and below
  \<open>ZERO_TOL\<close>, so that the sum of these products is at most \<open>n * ZERO_TOL\<close> in
  absolute value. \<open>ZERO_TOL\<close> is the argument \<open>zero_tol\<close> if positive and \<open>n\<close>
  times the machine epsilon otherwise. The vector \<open>z\<close> has length \<open>n\<close> (for
  \<open>n < 2^31\<close>, so that \<open>2 n\<close> is an \<open>unsigned\<close>).
\<close>

theorem lcp_lemke_regularized_checked:
  assumes "1 \<le> length q"
    and "lcp_lemke_regularized LA M q z0 min_exp step_exp max_exp piv_tol zero_tol
           = Some (True, z)"
  shows "(\<exists>MM z'.
           (MM = M \<and> z' = z0 \<or>
            (\<exists>k. runs_pass LA M q step_exp max_exp piv_tol zero_tol min_exp
                    (fst (snd (lcp_lemke LA M q z0 piv_tol zero_tol))) k \<and>
                  MM = regularize LA M
                         (dbl_pow10 LA
                           (fst (pass_state LA M q step_exp piv_tol zero_tol k min_exp
                                  (fst (snd (lcp_lemke LA M q z0 piv_tol zero_tol)))))) \<and>
                  z' = snd (pass_state LA M q step_exp piv_tol zero_tol k min_exp
                              (fst (snd (lcp_lemke LA M q z0 piv_tol zero_tol)))))) \<and>
           fst (lcp_lemke LA MM q z' piv_tol zero_tol) \<and>
           z = fst (snd (lcp_lemke LA MM q z' piv_tol zero_tol)) \<and>
           (\<forall>v \<in> set z. - ZERO_TOL LA q zero_tol \<le> v) \<and>
           (\<forall>v \<in> set (checked_w LA MM z q). - ZERO_TOL LA q zero_tol \<le> v) \<and>
           (\<forall>p \<in> set (checked_products LA z (checked_w LA MM z q)).
              - ZERO_TOL LA q zero_tol \<le> p \<and> p < ZERO_TOL LA q zero_tol) \<and>
           \<bar>sum_list (checked_products LA z (checked_w LA MM z q))\<bar>
             \<le> real (length q) * ZERO_TOL LA q zero_tol) \<and>
         (length q < 2 ^ 31 \<longrightarrow> length z = length q)"
proof -
  from lcp_lemke_regularized_verified [OF assms]
  obtain MM z' where
    pass: "MM = M \<and> z' = z0 \<or>
            (\<exists>k. runs_pass LA M q step_exp max_exp piv_tol zero_tol min_exp
                    (fst (snd (lcp_lemke LA M q z0 piv_tol zero_tol))) k \<and>
                  MM = regularize LA M
                         (dbl_pow10 LA
                           (fst (pass_state LA M q step_exp piv_tol zero_tol k min_exp
                                  (fst (snd (lcp_lemke LA M q z0 piv_tol zero_tol)))))) \<and>
                  z' = snd (pass_state LA M q step_exp piv_tol zero_tol k min_exp
                              (fst (snd (lcp_lemke LA M q z0 piv_tol zero_tol)))))"
    and ok: "fst (lcp_lemke LA MM q z' piv_tol zero_tol)"
    and z: "z = fst (snd (lcp_lemke LA MM q z' piv_tol zero_tol))"
    and ver: "verified LA MM q z (ZERO_TOL LA q zero_tol)"
    by blast
  have len: "length z \<le> length q"
    unfolding z by (rule lcp_lemke_length_le)
  note bounds = verified_bounds [OF ver ZERO_TOL_pos [OF assms(1)] len]
  have "length q < 2 ^ 31 \<longrightarrow> length z = length q"
    unfolding z by (simp add: lcp_lemke_length)
  with pass ok z bounds show ?thesis by blast
qed

text \<open>
  Claim C1, a run of the theorem on the regularized path: \<open>M = [[-1]]\<close>,
  \<open>q = [-9]\<close>, exponents from 0 with step 1 below 2. The solve without
  regularization and pass 0 (\<open>lambda = 1\<close>) end on a ray and leave \<open>z = [0]\<close>; the
  loop runs pass 1 (\<open>lambda = 10\<close>), which solves the matrix \<open>[[9]]\<close> from
  \<open>[0]\<close> and returns \<open>z = [1]\<close>, with the computed \<open>w = [0]\<close>.
\<close>

theorem lcp_lemke_regularized_checked_witness:
  "lcp_lemke_regularized scalar_LinAlgd [[- 1]] [- 9] [] 0 1 2 0 0 = Some (True, [1]) \<and>
   pass_state scalar_LinAlgd [[- 1]] [- 9] 1 0 0 1 0 [0] = (1, [0]) \<and>
   runs_pass scalar_LinAlgd [[- 1]] [- 9] 1 2 0 0 0 [0] 1 \<and>
   regularize scalar_LinAlgd [[- 1]] (dbl_pow10 scalar_LinAlgd 1) = [[9]] \<and>
   lcp_lemke scalar_LinAlgd [[9]] [- 9] [0] 0 0 = (True, [1], Solved, 1) \<and>
   checked_w scalar_LinAlgd [[9]] [1] [- 9] = [0] \<and>
   checked_products scalar_LinAlgd [1] [0] = [0] \<and>
   (\<exists>MM z'.
      (MM = [[- 1]] \<and> z' = [] \<or>
       (\<exists>k. runs_pass scalar_LinAlgd [[- 1]] [- 9] 1 2 0 0 0 [0] k \<and>
             MM = regularize scalar_LinAlgd [[- 1]]
                    (dbl_pow10 scalar_LinAlgd
                      (fst (pass_state scalar_LinAlgd [[- 1]] [- 9] 1 0 0 k 0 [0]))) \<and>
             z' = snd (pass_state scalar_LinAlgd [[- 1]] [- 9] 1 0 0 k 0 [0]))) \<and>
      fst (lcp_lemke scalar_LinAlgd MM [- 9] z' 0 0) \<and>
      [1] = fst (snd (lcp_lemke scalar_LinAlgd MM [- 9] z' 0 0)) \<and>
      (\<forall>v \<in> set [1 :: real]. - ZERO_TOL scalar_LinAlgd [- 9] 0 \<le> v) \<and>
      (\<forall>v \<in> set (checked_w scalar_LinAlgd MM [1] [- 9]). - ZERO_TOL scalar_LinAlgd [- 9] 0 \<le> v) \<and>
      (\<forall>p \<in> set (checked_products scalar_LinAlgd [1] (checked_w scalar_LinAlgd MM [1] [- 9])).
         - ZERO_TOL scalar_LinAlgd [- 9] 0 \<le> p \<and> p < ZERO_TOL scalar_LinAlgd [- 9] 0) \<and>
      \<bar>sum_list (checked_products scalar_LinAlgd [1] (checked_w scalar_LinAlgd MM [1] [- 9]))\<bar>
        \<le> real (length [- 9 :: real]) * ZERO_TOL scalar_LinAlgd [- 9] 0) \<and>
   length [1 :: real] = length [- 9 :: real]"
  using lcp_lemke_regularized_checked [OF _ run_regularized] run_regularized run_passes
    run_accepted_matrix run_unregularized
  by simp

lemma floor_log2:
  assumes "2 powi e \<le> x" and "x < 2 powi (e + 1)"
  shows "\<lfloor>log 2 x\<rfloor> = e"
proof -
  have "0 < (2::real) powi e" by simp
  with assms have pos: "0 < x" by linarith
  have "(2::real) powr (real_of_int k) = 2 powi k" for k
    by (simp add: powr_real_of_int')
  from this [of e] this [of "e + 1"] assms
  have "2 powr real_of_int e \<le> x \<and> x < 2 powr real_of_int (e + 1)"
    by simp
  moreover have "(1::real) < 2" by simp
  ultimately show ?thesis
    using floor_log_eq_powr_iff [of x 2 e] pos by blast
qed

text \<open>
  The value of \<open>round_double\<close> at a number whose binary exponent is known: the
  number is rounded to a multiple of \<open>2^(e - 52)\<close>.
\<close>

lemma round_double_eval:
  assumes "2 powi e \<le> \<bar>x\<bar>" and "\<bar>x\<bar> < 2 powi (e + 1)"
  shows "round_double x = of_int (round_to_even (x / 2 powi (e - 52))) * 2 powi (e - 52)"
proof -
  have "0 < (2::real) powi e" by simp
  with assms have "x \<noteq> 0" by linarith
  with floor_log2 [OF assms] show ?thesis
    by (simp add: round_double_def Let_def)
qed

lemma round_double_0: "round_double 0 = 0"
  by (simp add: round_double_def)

text \<open>
  The double nearest to \<open>-10/15\<close> is \<open>-6004799503160661 / 2^53\<close>, and the double
  nearest to 15 times \<open>6004799503160661 / 2^53\<close>, which is \<open>10 - 5 / 2^53\<close>, is 10.
\<close>

lemma round_double_quotient: "round_double (- 10 / 15) = - (6004799503160661 / 2 ^ 53)"
  using round_double_eval [of "- 1" "- 10 / 15"]
  by (simp add: round_to_even_def power_int_minus)

lemma round_double_product: "round_double (15 * (6004799503160661 / 2 ^ 53)) = 10"
  using round_double_eval [of 3 "15 * (6004799503160661 / 2 ^ 53)"]
  by (simp add: round_to_even_def power_int_minus)

lemma run_double_solve:
  "lcp_lemke double_LinAlgd [[15]] [- 10] [1] 0 0
     = (True, [6004799503160661 / 2 ^ 53], InitialBasis, 0)"
  by (simp add: lcp_lemke_def Let_def u32_def initial_bas_def initial_nonbas_def negate_def
      identity_def solve_cascade_def select_columns_def write_back_def lemke_zero_tol_def
      DBL_EPSILON_def replicate_two double_LinAlgd_def round_double_quotient [simplified])

lemma run_double_checks:
  "checked_w double_LinAlgd [[15]] [6004799503160661 / 2 ^ 53] [- 10] = [0] \<and>
   checked_products double_LinAlgd [6004799503160661 / 2 ^ 53] [0] = [0]"
  by (simp add: checked_w_def checked_products_def double_LinAlgd_def
      round_double_product [simplified] round_double_0)

text \<open>
  Claim C1, as stated, bounds the entries of \<open>M z + q\<close> and the product
  \<open>z\<^sup>T (M z + q)\<close> themselves. In the arithmetic of doubles, with \<open>M = [[15]]\<close>,
  \<open>q = [-10]\<close>, the start vector \<open>[1]\<close> and the default tolerance
  \<open>ZERO_TOL = 2^-52\<close>, the solve returns the double nearest to \<open>2/3\<close>; the check
  computes \<open>15 z\<close> as 10 and \<open>w\<close> as 0, and the function returns success. For this
  \<open>z\<close> the number \<open>M z + q\<close> is \<open>-5 / 2^53\<close>, which is below \<open>-ZERO_TOL\<close>, and
  \<open>|z\<^sup>T (M z + q)|\<close> is above \<open>n * ZERO_TOL\<close>.
\<close>

theorem lcp_lemke_regularized_rounding_counterexample:
  "lcp_lemke_regularized double_LinAlgd [[15]] [- 10] [1] (- 20) 4 (- 4) 0 0
     = Some (True, [6004799503160661 / 2 ^ 53]) \<and>
   ZERO_TOL double_LinAlgd [- 10] 0 = 1 / 2 ^ 52 \<and>
   w_of [[15]] [6004799503160661 / 2 ^ 53] [- 10] = [- (5 / 2 ^ 53)] \<and>
   w_of [[15]] [6004799503160661 / 2 ^ 53] [- 10] ! 0 < - ZERO_TOL double_LinAlgd [- 10] 0 \<and>
   real (length [- 10 :: real]) * ZERO_TOL double_LinAlgd [- 10] 0
     < \<bar>dot [6004799503160661 / 2 ^ 53] (w_of [[15]] [6004799503160661 / 2 ^ 53] [- 10])\<bar>"
proof -
  have "verified double_LinAlgd [[15]] [- 10] [6004799503160661 / 2 ^ 53]
          (ZERO_TOL double_LinAlgd [- 10] 0)"
    using run_double_checks
    by (simp add: verified_def ZERO_TOL_def DBL_EPSILON_def)
  then have "lcp_lemke_regularized double_LinAlgd [[15]] [- 10] [1] (- 20) 4 (- 4) 0 0
               = Some (True, [6004799503160661 / 2 ^ 53])"
    by (simp add: lcp_lemke_regularized_def run_double_solve)
  moreover have "ZERO_TOL double_LinAlgd [- 10] 0 = 1 / 2 ^ 52"
    by (simp add: ZERO_TOL_def DBL_EPSILON_def)
  moreover have w: "w_of [[15]] [6004799503160661 / 2 ^ 53] [- 10] = [- (5 / 2 ^ 53)]"
    by (simp add: w_of_def mult_def)
  moreover have "real (length [- 10 :: real]) * (1 / 2 ^ 52)
                   < \<bar>dot [6004799503160661 / 2 ^ 53] [- (5 / 2 ^ 53)]\<bar>"
    by (simp add: dot_def)
  ultimately show ?thesis
    by simp
qed

lemma regularization_loop_exponents:
  assumes "0 < step_exp" and "- (2 ^ 31) \<le> rf" and "max_exp + int step_exp \<le> 2 ^ 31"
  shows "regularization_loop LA M q step_exp max_exp piv_tol zero_tol rf z
           = Some (try_exponents LA M q piv_tol zero_tol (exponents rf step_exp max_exp) z)"
  using assms
proof (induction rf step_exp max_exp arbitrary: z rule: exponents.induct)
  case (1 rf step_exp max_exp)
  show ?case
  proof (cases "rf < max_exp")
    case False
    then show ?thesis
      by (subst regularization_loop.simps, subst exponents.simps) simp
  next
    case True
    with "1.prems" have wrap: "int32 (rf + int step_exp) = rf + int step_exp"
      by (intro int32_id) simp_all
    have next_ok: "- (2 ^ 31) \<le> rf + int step_exp"
      using "1.prems" by simp
    have IH: "regularization_loop LA M q step_exp max_exp piv_tol zero_tol (rf + int step_exp) z'
                = Some (try_exponents LA M q piv_tol zero_tol
                          (exponents (rf + int step_exp) step_exp max_exp) z')" for z'
      using "1.IH" True "1.prems"(1) next_ok "1.prems"(3) by simp
    show ?thesis
      apply (subst regularization_loop.simps)
      apply (subst exponents.simps)
      using True "1.prems"(1) apply (simp add: wrap IH)
      done
  qed
qed

lemma exponents_set:
  assumes "0 < step_exp"
  shows "set (exponents rf step_exp max_exp)
           = {e. \<exists>k. e = rf + int k * int step_exp \<and> e < max_exp}"
  using assms
proof (induction rf step_exp max_exp rule: exponents.induct)
  case (1 rf step_exp max_exp)
  show ?case
  proof (cases "rf < max_exp")
    case False
    have "\<And>k. \<not> rf + int k * int step_exp < max_exp"
    proof -
      fix k
      have "0 \<le> int k * int step_exp" by simp
      with False show "\<not> rf + int k * int step_exp < max_exp" by linarith
    qed
    with False show ?thesis
      by (subst exponents.simps) auto
  next
    case True
    have IH: "set (exponents (rf + int step_exp) step_exp max_exp)
                = {e. \<exists>k. e = rf + int step_exp + int k * int step_exp \<and> e < max_exp}"
      using "1.IH" True "1.prems" by simp
    have "{e. \<exists>k. e = rf + int k * int step_exp \<and> e < max_exp}
            = insert rf {e. \<exists>k. e = rf + int step_exp + int k * int step_exp \<and> e < max_exp}"
      (is "?L = insert rf ?R")
    proof (intro set_eqI iffI)
      fix e assume "e \<in> ?L"
      then obtain k where k: "e = rf + int k * int step_exp" "e < max_exp" by blast
      show "e \<in> insert rf ?R"
      proof (cases k)
        case 0
        with k show ?thesis by simp
      next
        case (Suc j)
        with k have "e = rf + int step_exp + int j * int step_exp"
          by (simp add: algebra_simps)
        with k show ?thesis by blast
      qed
    next
      fix e assume "e \<in> insert rf ?R"
      then consider "e = rf" | "e \<in> ?R" by blast
      then show "e \<in> ?L"
      proof cases
        case 1
        with True have "e = rf + int 0 * int step_exp \<and> e < max_exp" by simp
        then show ?thesis by blast
      next
        case 2
        then obtain j where j: "e = rf + int step_exp + int j * int step_exp" "e < max_exp"
          by blast
        then have "e = rf + int (Suc j) * int step_exp"
          by (simp add: algebra_simps)
        with j show ?thesis by blast
      qed
    qed
    with True "1.prems" IH show ?thesis
      by (subst exponents.simps) simp
  qed
qed

lemma exponents_0_1_2: "exponents 0 (Suc 0) 2 = [0, 1]"
  by (simp add: exponents.simps)

text \<open>
  Claim C3, as the code has it. For \<open>step_exp \<ge> 1\<close> and exponents that stay in the
  range of \<open>int\<close>, when the solve without regularization fails or fails the checks,
  \<open>lcp_lemke_regularized\<close> tries the exponents \<open>min_exp, min_exp + step_exp, ...\<close>
  that are strictly below \<open>max_exp\<close>, in this order, and returns the first solution
  that passes the checks; it returns failure when none of them does.
\<close>

theorem lcp_lemke_regularized_exponents:
  assumes "1 \<le> length q" and "0 < step_exp" and "- (2 ^ 31) \<le> min_exp"
    and "max_exp + int step_exp \<le> 2 ^ 31"
  shows "lcp_lemke_regularized LA M q z min_exp step_exp max_exp piv_tol zero_tol
           = Some (if fst (lcp_lemke LA M q z piv_tol zero_tol) \<and>
                      verified LA M q (fst (snd (lcp_lemke LA M q z piv_tol zero_tol)))
                        (ZERO_TOL LA q zero_tol)
                   then (True, fst (snd (lcp_lemke LA M q z piv_tol zero_tol)))
                   else try_exponents LA M q piv_tol zero_tol
                          (exponents min_exp step_exp max_exp)
                          (fst (snd (lcp_lemke LA M q z piv_tol zero_tol)))) \<and>
         set (exponents min_exp step_exp max_exp)
           = {e. \<exists>k. e = min_exp + int k * int step_exp \<and> e < max_exp}"
proof -
  from assms(1) have "q \<noteq> []" by auto
  then have "lcp_lemke_regularized LA M q z min_exp step_exp max_exp piv_tol zero_tol
           = Some (if fst (lcp_lemke LA M q z piv_tol zero_tol) \<and>
                      verified LA M q (fst (snd (lcp_lemke LA M q z piv_tol zero_tol)))
                        (ZERO_TOL LA q zero_tol)
                   then (True, fst (snd (lcp_lemke LA M q z piv_tol zero_tol)))
                   else try_exponents LA M q piv_tol zero_tol
                          (exponents min_exp step_exp max_exp)
                          (fst (snd (lcp_lemke LA M q z piv_tol zero_tol))))"
    by (simp add: lcp_lemke_regularized_def Let_def regularization_loop_exponents [OF assms(2-4)])
  with exponents_set [OF assms(2)] show ?thesis by blast
qed

text \<open>
  Claim C3, a run of the theorem: \<open>M = [[-1]]\<close>, \<open>q = [-9]\<close>, exponents from 0
  with step 1 below 2. The solves without regularization and with \<open>lambda = 1\<close> end
  on a ray; the one with \<open>lambda = 10\<close> gives \<open>z = [1]\<close>.
\<close>

theorem lcp_lemke_regularized_exponents_witness:
  "lcp_lemke_regularized scalar_LinAlgd [[- 1]] [- 9] [] 0 1 2 0 0 = Some (True, [1]) \<and>
   exponents 0 1 2 = [0, 1]"
  using lcp_lemke_regularized_exponents [of "[- 9]" 1 0 2 scalar_LinAlgd "[[- 1]]" "[]" 0 0]
  by (simp add: run_unregularized exponents_0_1_2 run_lambda_1 run_lambda_10)

text \<open>
  Claim C3, as stated, tries the exponent \<open>max_exp\<close> too. On the same problem with
  \<open>min_exp = 0\<close>, \<open>step_exp = 1\<close> and \<open>max_exp = 1\<close> the function returns
  failure after the exponent 0 alone, although the pass at the exponent 1, from the
  \<open>z\<close> then at hand, solves the problem and passes the checks.
\<close>

theorem lcp_lemke_regularized_max_exp_counterexample:
  "lcp_lemke_regularized scalar_LinAlgd [[- 1]] [- 9] [] 0 1 1 0 0 = Some (False, [0]) \<and>
   regularized_attempt scalar_LinAlgd [[- 1]] [- 9] 0 0 1 [0] = (True, [1])"
proof -
  have "regularization_loop scalar_LinAlgd [[- 1]] [- 9] 1 1 0 0 0 [0] = Some (False, [0])"
    apply (subst regularization_loop.simps)
    apply (simp add: run_lambda_1 int32_1)
    apply (subst regularization_loop.simps)
    apply simp
    done
  then have "lcp_lemke_regularized scalar_LinAlgd [[- 1]] [- 9] [] 0 1 1 0 0 = Some (False, [0])"
    by (simp add: lcp_lemke_regularized_def run_unregularized)
  with run_lambda_10 show ?thesis by simp
qed

end
